theory Spec2Isabelle
  imports Main "HOL-Library.Word" "HOL-Library.Monad_Syntax" "HOL-Library.AList"
begin

unbundle bit_operations_syntax

chapter \<open>The embedding\<close>

section \<open>Credential codec (app/utils/hash_verifier.py)\<close>

text \<open>
  Python \<open>bytes\<close> are lists of 8-bit words. The text handled by the codec is a Python
  \<open>str\<close>, a sequence of Unicode code points, here a list of naturals.
\<close>

type_synonym byte = "8 word"
type_synonym bytes = "byte list"
type_synonym u32 = "32 word"
type_synonym pystr = "nat list"

subsection \<open>\<open>hashlib.sha256(m).digest()\<close>\<close>

text \<open>
  SHA-256 as FIPS 180-4 defines it: the message is padded to a multiple of 64 bytes, cut
  into blocks, and every block is compressed into the eight-word state; the digest is
  the state in big-endian byte order.
\<close>

text \<open>The round constants, four rounds to a row.\<close>

definition sha_k :: "u32 list" where
  "sha_k =
     [0x428a2f98, 0x71374491, 0xb5c0fbcf, 0xe9b5dba5] @
     [0x3956c25b, 0x59f111f1, 0x923f82a4, 0xab1c5ed5] @
     [0xd807aa98, 0x12835b01, 0x243185be, 0x550c7dc3] @
     [0x72be5d74, 0x80deb1fe, 0x9bdc06a7, 0xc19bf174] @
     [0xe49b69c1, 0xefbe4786, 0x0fc19dc6, 0x240ca1cc] @
     [0x2de92c6f, 0x4a7484aa, 0x5cb0a9dc, 0x76f988da] @
     [0x983e5152, 0xa831c66d, 0xb00327c8, 0xbf597fc7] @
     [0xc6e00bf3, 0xd5a79147, 0x06ca6351, 0x14292967] @
     [0x27b70a85, 0x2e1b2138, 0x4d2c6dfc, 0x53380d13] @
     [0x650a7354, 0x766a0abb, 0x81c2c92e, 0x92722c85] @
     [0xa2bfe8a1, 0xa81a664b, 0xc24b8b70, 0xc76c51a3] @
     [0xd192e819, 0xd6990624, 0xf40e3585, 0x106aa070] @
     [0x19a4c116, 0x1e376c08, 0x2748774c, 0x34b0bcb5] @
     [0x391c0cb3, 0x4ed8aa4a, 0x5b9cca4f, 0x682e6ff3] @
     [0x748f82ee, 0x78a5636f, 0x84c87814, 0x8cc70208] @
     [0x90befffa, 0xa4506ceb, 0xbef9a3f7, 0xc67178f2]"

type_synonym sha_state = "u32 \<times> u32 \<times> u32 \<times> u32 \<times> u32 \<times> u32 \<times> u32 \<times> u32"

definition sha_init :: sha_state where
  "sha_init = (0x6a09e667, 0xbb67ae85, 0x3c6ef372, 0xa54ff53a,
               0x510e527f, 0x9b05688c, 0x1f83d9ab, 0x5be0cd19)"

definition rotr :: "nat \<Rightarrow> u32 \<Rightarrow> u32" where
  "rotr n x = drop_bit n x OR push_bit (32 - n) x"

definition ch :: "u32 \<Rightarrow> u32 \<Rightarrow> u32 \<Rightarrow> u32" where
  "ch x y z = (x AND y) XOR (NOT x AND z)"

definition maj :: "u32 \<Rightarrow> u32 \<Rightarrow> u32 \<Rightarrow> u32" where
  "maj x y z = (x AND y) XOR (x AND z) XOR (y AND z)"

definition bsig0 :: "u32 \<Rightarrow> u32" where
  "bsig0 x = rotr 2 x XOR rotr 13 x XOR rotr 22 x"

definition bsig1 :: "u32 \<Rightarrow> u32" where
  "bsig1 x = rotr 6 x XOR rotr 11 x XOR rotr 25 x"

definition ssig0 :: "u32 \<Rightarrow> u32" where
  "ssig0 x = rotr 7 x XOR rotr 18 x XOR drop_bit 3 x"

definition ssig1 :: "u32 \<Rightarrow> u32" where
  "ssig1 x = rotr 17 x XOR rotr 19 x XOR drop_bit 10 x"

definition be32 :: "u32 \<Rightarrow> bytes" where
  "be32 w = [ucast (drop_bit 24 w), ucast (drop_bit 16 w), ucast (drop_bit 8 w), ucast w]"

definition from_be :: "bytes \<Rightarrow> u32" where
  "from_be bs = foldl (\<lambda>acc b. push_bit 8 acc OR ucast b) 0 bs"

definition be64 :: "64 word \<Rightarrow> bytes" where
  "be64 w = [ucast (drop_bit 56 w), ucast (drop_bit 48 w), ucast (drop_bit 40 w),
             ucast (drop_bit 32 w), ucast (drop_bit 24 w), ucast (drop_bit 16 w),
             ucast (drop_bit 8 w), ucast w]"

definition sha_pad :: "bytes \<Rightarrow> bytes" where
  "sha_pad m =
     m @ [0x80] @ replicate ((119 - length m mod 64) mod 64) 0
       @ be64 (of_nat (8 * length m))"

definition sha_blocks :: "bytes \<Rightarrow> bytes list" where
  "sha_blocks p = map (\<lambda>i. take 64 (drop (64 * i) p)) [0..<length p div 64]"

definition block_words :: "bytes \<Rightarrow> u32 list" where
  "block_words blk = map (\<lambda>j. from_be (take 4 (drop (4 * j) blk))) [0..<16]"

primrec sha_schedule :: "nat \<Rightarrow> u32 list \<Rightarrow> u32 list" where
  "sha_schedule 0 w = w"
| "sha_schedule (Suc k) w =
     sha_schedule k
       (w @ [ssig1 (w ! (length w - 2)) + w ! (length w - 7)
             + ssig0 (w ! (length w - 15)) + w ! (length w - 16)])"

fun sha_round :: "sha_state \<Rightarrow> u32 \<times> u32 \<Rightarrow> sha_state" where
  "sha_round (a, b, c, d, e, f, g, h) (k, w) =
     (let t1 = h + bsig1 e + ch e f g + k + w;
          t2 = bsig0 a + maj a b c
      in (t1 + t2, a, b, c, d + t1, e, f, g))"

fun sha_block :: "sha_state \<Rightarrow> bytes \<Rightarrow> sha_state" where
  "sha_block (h0, h1, h2, h3, h4, h5, h6, h7) blk =
     (case foldl sha_round (h0, h1, h2, h3, h4, h5, h6, h7)
             (zip sha_k (sha_schedule 48 (block_words blk))) of
        (a, b, c, d, e, f, g, h) \<Rightarrow>
          (h0 + a, h1 + b, h2 + c, h3 + d, h4 + e, h5 + f, h6 + g, h7 + h))"

definition sha256 :: "bytes \<Rightarrow> bytes" where
  "sha256 m =
     (case foldl sha_block sha_init (sha_blocks (sha_pad m)) of
        (a, b, c, d, e, f, g, h) \<Rightarrow> concat (map be32 [a, b, c, d, e, f, g, h]))"

subsection \<open>\<open>str.encode()\<close> and \<open>bytes.decode()\<close>: strict UTF-8\<close>

text \<open>
  \<open>str.encode()\<close> raises \<open>UnicodeEncodeError\<close> on a lone surrogate; \<open>bytes.decode()\<close>
  raises \<open>UnicodeDecodeError\<close> on a truncated, overlong or out-of-range sequence. Both
  callers catch every exception, so raising is \<open>None\<close> here.
\<close>

definition utf8_char :: "nat \<Rightarrow> bytes option" where
  "utf8_char c =
     (if c < 0x80 then Some [of_nat c]
      else if c < 0x800 then Some [of_nat (0xC0 + c div 64), of_nat (0x80 + c mod 64)]
      else if 0xD800 \<le> c \<and> c < 0xE000 then None
      else if c < 0x10000 then
        Some [of_nat (0xE0 + c div 4096), of_nat (0x80 + c div 64 mod 64),
              of_nat (0x80 + c mod 64)]
      else if c < 0x110000 then
        Some [of_nat (0xF0 + c div 262144), of_nat (0x80 + c div 4096 mod 64),
              of_nat (0x80 + c div 64 mod 64), of_nat (0x80 + c mod 64)]
      else None)"

fun str_encode :: "pystr \<Rightarrow> bytes option" where
  "str_encode [] = Some []"
| "str_encode (c # cs) =
     (case utf8_char c of
        None \<Rightarrow> None
      | Some bs \<Rightarrow> (case str_encode cs of None \<Rightarrow> None | Some r \<Rightarrow> Some (bs @ r)))"

definition cont :: "byte \<Rightarrow> bool" where
  "cont b = (0x80 \<le> unat b \<and> unat b < 0xC0)"

definition utf8_next :: "bytes \<Rightarrow> (nat \<times> nat) option" where
  "utf8_next bs =
     (case bs of
        [] \<Rightarrow> None
      | b0 # r \<Rightarrow>
          let n0 = unat b0 in
          if n0 < 0x80 then Some (n0, 1)
          else if 0xC2 \<le> n0 \<and> n0 < 0xE0 then
            (case r of
               b1 # _ \<Rightarrow>
                 if cont b1 then Some ((n0 - 0xC0) * 64 + (unat b1 - 0x80), 2) else None
             | _ \<Rightarrow> None)
          else if 0xE0 \<le> n0 \<and> n0 < 0xF0 then
            (case r of
               b1 # b2 # _ \<Rightarrow>
                 let c = (n0 - 0xE0) * 4096 + (unat b1 - 0x80) * 64 + (unat b2 - 0x80) in
                 if cont b1 \<and> cont b2 \<and> 0x800 \<le> c \<and> \<not> (0xD800 \<le> c \<and> c < 0xE000)
                 then Some (c, 3) else None
             | _ \<Rightarrow> None)
          else if 0xF0 \<le> n0 \<and> n0 < 0xF5 then
            (case r of
               b1 # b2 # b3 # _ \<Rightarrow>
                 let c = (n0 - 0xF0) * 262144 + (unat b1 - 0x80) * 4096
                         + (unat b2 - 0x80) * 64 + (unat b3 - 0x80) in
                 if cont b1 \<and> cont b2 \<and> cont b3 \<and> 0x10000 \<le> c \<and> c < 0x110000
                 then Some (c, 4) else None
             | _ \<Rightarrow> None)
          else None)"

function bytes_decode :: "bytes \<Rightarrow> pystr option" where
  "bytes_decode bs =
     (if bs = [] then Some []
      else case utf8_next bs of
        None \<Rightarrow> None
      | Some (c, k) \<Rightarrow>
          (case bytes_decode (drop k bs) of None \<Rightarrow> None | Some r \<Rightarrow> Some (c # r)))"
  by pat_completeness auto
termination
  by (relation "measure length")
     (auto simp: utf8_next_def Let_def split: list.splits if_splits)

subsection \<open>\<open>base64.b64encode\<close> and \<open>base64.b64decode\<close>\<close>

text \<open>
  \<open>b2a\<close> is the alphabet \<open>A-Z a-z 0-9 + /\<close> by index and \<open>a2b\<close> its inverse table
  (\<open>None\<close> for a byte outside the alphabet). \<open>a2b_base64\<close> is the decoding loop of
  \<open>binascii.a2b_base64\<close> in its default, non-strict mode, with its state \<open>quad_pos\<close>,
  \<open>leftchar\<close> and \<open>pads\<close>: a byte outside the alphabet is skipped, a complete run of
  padding ends the input, and data that stops inside a quad is an error (\<open>None\<close>).
  \<open>base64.b64decode\<close> of a \<open>str\<close> first encodes it as ASCII and fails on any other
  character.
\<close>

definition b2a :: "nat \<Rightarrow> byte" where
  "b2a i = of_nat (if i < 26 then 65 + i else if i < 52 then 71 + i
                   else if i < 62 then i - 4 else if i = 62 then 43 else 47)"

definition a2b :: "byte \<Rightarrow> nat option" where
  "a2b c =
     (let n = unat c in
      if 65 \<le> n \<and> n \<le> 90 then Some (n - 65)
      else if 97 \<le> n \<and> n \<le> 122 then Some (n - 71)
      else if 48 \<le> n \<and> n \<le> 57 then Some (n + 4)
      else if n = 43 then Some 62
      else if n = 47 then Some 63
      else None)"

fun b64encode :: "bytes \<Rightarrow> bytes" where
  "b64encode (a # b # c # r) =
     [b2a (unat a div 4), b2a (unat a mod 4 * 16 + unat b div 16),
      b2a (unat b mod 16 * 4 + unat c div 64), b2a (unat c mod 64)] @ b64encode r"
| "b64encode [a, b] =
     [b2a (unat a div 4), b2a (unat a mod 4 * 16 + unat b div 16), b2a (unat b mod 16 * 4), 61]"
| "b64encode [a] = [b2a (unat a div 4), b2a (unat a mod 4 * 16), 61, 61]"
| "b64encode [] = []"

fun a2b_base64 :: "nat \<Rightarrow> nat \<Rightarrow> nat \<Rightarrow> bytes \<Rightarrow> bytes \<Rightarrow> bytes option" where
  "a2b_base64 q l p out [] = (if q = 0 then Some out else None)"
| "a2b_base64 q l p out (c # cs) =
     (if c = 61 then
        (if 2 \<le> q \<and> 4 \<le> q + (p + 1) then Some out
         else a2b_base64 q l (if 2 \<le> q then p + 1 else p) out cs)
      else case a2b c of
        None \<Rightarrow> a2b_base64 q l p out cs
      | Some v \<Rightarrow>
          (if q = 0 then a2b_base64 1 v 0 out cs
           else if q = 1 then a2b_base64 2 (v mod 16) 0 (out @ [of_nat (l * 4 + v div 16)]) cs
           else if q = 2 then a2b_base64 3 (v mod 4) 0 (out @ [of_nat (l * 16 + v div 4)]) cs
           else a2b_base64 0 0 0 (out @ [of_nat (l * 64 + v)]) cs))"

definition b64decode :: "bytes \<Rightarrow> bytes option" where
  "b64decode s = a2b_base64 0 0 0 [] s"

definition b64decode_str :: "pystr \<Rightarrow> bytes option" where
  "b64decode_str s = (if list_all (\<lambda>c. c < 128) s then b64decode (map of_nat s) else None)"

subsection \<open>\<open>simple_encrypt\<close> and \<open>simple_decrypt\<close>\<close>

text \<open>
  \<open>HASH_SECRET\<close> is the module's configuration value, read from the environment. Both
  functions return Python's \<open>None\<close> whenever a step raises.
\<close>

definition simple_encrypt :: "pystr \<Rightarrow> pystr \<Rightarrow> pystr option" where
  "simple_encrypt HASH_SECRET connection_string =
     do {
       keyed \<leftarrow> str_encode (connection_string @ HASH_SECRET);
       let signature = sha256 keyed;
       raw \<leftarrow> str_encode connection_string;
       encoded_conn \<leftarrow> bytes_decode (b64encode raw);
       encoded_bytes \<leftarrow> str_encode encoded_conn;
       bytes_decode (b64encode (signature @ encoded_bytes))
     }"

definition simple_decrypt :: "pystr \<Rightarrow> pystr \<Rightarrow> pystr option" where
  "simple_decrypt HASH_SECRET hash_value =
     do {
       decoded \<leftarrow> b64decode_str hash_value;
       let signature = take 32 decoded;
       encoded_conn \<leftarrow> bytes_decode (drop 32 decoded);
       raw \<leftarrow> b64decode_str encoded_conn;
       connection_string \<leftarrow> bytes_decode raw;
       keyed \<leftarrow> str_encode (connection_string @ HASH_SECRET);
       let expected_signature = sha256 keyed;
       if signature \<noteq> expected_signature then None else Some connection_string
     }"


text \<open>
  A Unicode scalar value is a code point that is not a surrogate; every printable
  character is one. \<open>unicode_text\<close> holds of the strings made of scalar values only,
  which are exactly the strings \<open>str.encode()\<close> accepts.
\<close>

definition scalar :: "nat \<Rightarrow> bool" where
  "scalar c = (c < 0xD800 \<or> (0xE000 \<le> c \<and> c < 0x110000))"

definition unicode_text :: "pystr \<Rightarrow> bool" where
  "unicode_text s = list_all scalar s"

section \<open>Python values, text and exceptions\<close>

text \<open>
  Outside the codec, text is \<open>string\<close>: a character is a code point below 256.

  \<open>dbval\<close> are the values a driver hands over in a row and the scalars of a result
  dictionary: \<open>None\<close>, a \<open>bool\<close>, an \<open>int\<close>, a \<open>float\<close>, a \<open>str\<close>, or an object of
  another class (\<open>Decimal\<close>, \<open>date\<close>, \<open>datetime\<close>, \<open>bytes\<close>, \<open>UUID\<close>, ...). A float is
  given by its \<open>repr\<close>, the text that determines it. An object of another class is given
  by what the program observes of it: the name of its class, its \<open>str()\<close>, its truth
  value and whether it equals \<open>-1\<close>; it equals no \<open>str\<close>. A column value that is itself a
  list or a dictionary (an array, a JSON document) is not modelled.
  \<open>pyval\<close> adds lists and dictionaries with string keys; a dictionary is an association
  list in insertion order, each key once.
\<close>

datatype dbval =
    DNull | DBool bool | DInt int | DFloat string | DStr string | DObj string string bool bool

datatype pyval = Atom dbval | PList "pyval list" | PDict "(string \<times> pyval) list"

type_synonym row = "(string \<times> dbval) list"

datatype exn =
    ConnectionError string
  | ValueError string
  | DatabaseError string
  | KeyError string
  | TypeError string
  | AttributeError string
  | RecursionError string
  | RedisError string

text \<open>\<open>quoted s\<close> is \<open>s\<close> between single quotes.\<close>

definition quoted :: "string \<Rightarrow> string" where
  "quoted s = [CHR 0x27] @ s @ [CHR 0x27]"

text \<open>\<open>str(e)\<close>: the message, and for a \<open>KeyError\<close> the \<open>repr\<close> of the missing key.\<close>

fun exn_str :: "exn \<Rightarrow> string" where
  "exn_str (ConnectionError m) = m"
| "exn_str (ValueError m) = m"
| "exn_str (DatabaseError m) = m"
| "exn_str (KeyError k) = quoted k"
| "exn_str (TypeError m) = m"
| "exn_str (AttributeError m) = m"
| "exn_str (RecursionError m) = m"
| "exn_str (RedisError m) = m"

subsection \<open>Results that may raise, and actions on a state\<close>

definition thn :: "exn + 'a \<Rightarrow> ('a \<Rightarrow> exn + 'b) \<Rightarrow> exn + 'b" where
  "thn m f = (case m of Inl e \<Rightarrow> Inl e | Inr x \<Rightarrow> f x)"

type_synonym ('s, 'a) action = "'s \<Rightarrow> (exn + 'a) \<times> 's"

definition ret :: "'a \<Rightarrow> ('s, 'a) action" where
  "ret x = (\<lambda>s. (Inr x, s))"

definition raise :: "exn \<Rightarrow> ('s, 'a) action" where
  "raise e = (\<lambda>s. (Inl e, s))"

definition lift :: "exn + 'a \<Rightarrow> ('s, 'a) action" where
  "lift r = (\<lambda>s. (r, s))"

definition and_then :: "('s, 'a) action \<Rightarrow> ('a \<Rightarrow> ('s, 'b) action) \<Rightarrow> ('s, 'b) action" where
  "and_then m f = (\<lambda>s. case m s of (Inl e, s') \<Rightarrow> (Inl e, s') | (Inr x, s') \<Rightarrow> f x s')"

text \<open>\<open>try: m  except Exception as e: h e\<close>; the state changes made before the raise stay.\<close>

definition try_except :: "('s, 'a) action \<Rightarrow> (exn \<Rightarrow> ('s, 'a) action) \<Rightarrow> ('s, 'a) action" where
  "try_except m h = (\<lambda>s. case m s of (Inl e, s') \<Rightarrow> h e s' | (Inr x, s') \<Rightarrow> (Inr x, s'))"

subsection \<open>Built-in operations\<close>

fun digits :: "nat \<Rightarrow> string" where
  "digits n = (if n < 10 then [''0123456789'' ! n]
               else digits (n div 10) @ [''0123456789'' ! (n mod 10)])"

declare digits.simps [simp del]

definition str_int :: "int \<Rightarrow> string" where
  "str_int i = (if i < 0 then CHR ''-'' # digits (nat (- i)) else digits (nat i))"

text \<open>\<open>str(v)\<close>, which is also how an f-string formats \<open>v\<close>.\<close>

fun py_str :: "dbval \<Rightarrow> string" where
  "py_str DNull = ''None''"
| "py_str (DBool b) = (if b then ''True'' else ''False'')"
| "py_str (DInt i) = str_int i"
| "py_str (DFloat r) = r"
| "py_str (DStr s) = s"
| "py_str (DObj cls s t m) = s"

fun type_name :: "dbval \<Rightarrow> string" where
  "type_name DNull = ''NoneType''"
| "type_name (DBool b) = ''bool''"
| "type_name (DInt i) = ''int''"
| "type_name (DFloat r) = ''float''"
| "type_name (DStr s) = ''str''"
| "type_name (DObj cls s t m) = cls"

text \<open>Truth value testing; a float is false when it is \<open>0.0\<close> or \<open>-0.0\<close>.\<close>

fun truthy :: "dbval \<Rightarrow> bool" where
  "truthy DNull = False"
| "truthy (DBool b) = b"
| "truthy (DInt i) = (i \<noteq> 0)"
| "truthy (DFloat r) = (r \<noteq> ''0.0'' \<and> r \<noteq> ''-0.0'')"
| "truthy (DStr s) = (s \<noteq> [])"
| "truthy (DObj cls s t m) = t"

text \<open>\<open>v == -1\<close>.\<close>

fun eq_minus_one :: "dbval \<Rightarrow> bool" where
  "eq_minus_one (DInt i) = (i = - 1)"
| "eq_minus_one (DFloat r) = (r = ''-1.0'')"
| "eq_minus_one (DObj cls s t m) = m"
| "eq_minus_one v = False"

fun py_truthy :: "pyval \<Rightarrow> bool" where
  "py_truthy (Atom a) = truthy a"
| "py_truthy (PList xs) = (xs \<noteq> [])"
| "py_truthy (PDict kvs) = (kvs \<noteq> [])"

text \<open>\<open>d[k]\<close> on a row, and \<open>dict(pairs)\<close>: a later pair overwrites an earlier one in place.\<close>

definition getitem :: "row \<Rightarrow> string \<Rightarrow> exn + dbval" where
  "getitem d k = (case map_of d k of None \<Rightarrow> Inl (KeyError k) | Some v \<Rightarrow> Inr v)"

definition py_dict :: "('k \<times> 'v) list \<Rightarrow> ('k \<times> 'v) list" where
  "py_dict pairs = foldl (\<lambda>d (k, v). AList.update k v d) [] pairs"

text \<open>\<open>str.lower()\<close> on code points below 256: A-Z and the Latin-1 capitals.\<close>

definition lower_char :: "char \<Rightarrow> char" where
  "lower_char c =
     (let n = (of_char c :: nat) in
      if (65 \<le> n \<and> n \<le> 90) \<or> (192 \<le> n \<and> n \<le> 222 \<and> n \<noteq> 215)
      then char_of (n + 32) else c)"

definition py_lower :: "string \<Rightarrow> string" where
  "py_lower s = map lower_char s"

text \<open>Whitespace as \<open>str.split()\<close> and \<open>str.strip()\<close> see it, below code point 256.\<close>

definition is_space :: "char \<Rightarrow> bool" where
  "is_space c =
     (let n = (of_char c :: nat) in
      (9 \<le> n \<and> n \<le> 13) \<or> (28 \<le> n \<and> n \<le> 32) \<or> n = 133 \<or> n = 160)"

definition py_strip :: "string \<Rightarrow> string" where
  "py_strip s = rev (dropWhile is_space (rev (dropWhile is_space s)))"

fun split_ws :: "string \<Rightarrow> string \<Rightarrow> string list" where
  "split_ws cur [] = (if cur = [] then [] else [cur])"
| "split_ws cur (c # cs) =
     (if is_space c then (if cur = [] then split_ws [] cs else cur # split_ws [] cs)
      else split_ws (cur @ [c]) cs)"

definition py_split :: "string \<Rightarrow> string list" where
  "py_split s = split_ws [] s"

text \<open>\<open>s.split(c, 1)\<close> for an \<open>s\<close> that contains \<open>c\<close>: the parts before and after the first \<open>c\<close>.\<close>

definition split_once :: "char \<Rightarrow> string \<Rightarrow> string \<times> string" where
  "split_once c s = (takeWhile (\<lambda>x. x \<noteq> c) s, tl (dropWhile (\<lambda>x. x \<noteq> c) s))"

fun contains :: "string \<Rightarrow> string \<Rightarrow> bool" where
  "contains sub [] = (sub = [])"
| "contains sub (c # cs) = (take (length sub) (c # cs) = sub \<or> contains sub cs)"

text \<open>
  \<open>sep.join(items)\<close> raises \<open>TypeError\<close> on an item that is not a \<open>str\<close>; \<open>v.lower()\<close>
  raises \<open>AttributeError\<close> and \<open>"." in v\<close> raises \<open>TypeError\<close> on a value that is not one.
\<close>

fun join_strs :: "string \<Rightarrow> string list \<Rightarrow> string" where
  "join_strs sep [] = []"
| "join_strs sep [x] = x"
| "join_strs sep (x # y # ys) = x @ sep @ join_strs sep (y # ys)"

fun str_items :: "nat \<Rightarrow> dbval list \<Rightarrow> exn + string list" where
  "str_items i [] = Inr []"
| "str_items i (DStr s # vs) = thn (str_items (i + 1) vs) (\<lambda>r. Inr (s # r))"
| "str_items i (v # vs) =
     Inl (TypeError (''sequence item '' @ digits i @ '': expected str instance, ''
                     @ type_name v @ '' found''))"

definition py_join :: "string \<Rightarrow> dbval list \<Rightarrow> exn + string" where
  "py_join sep items = thn (str_items 0 items) (\<lambda>ss. Inr (join_strs sep ss))"

fun attr_lower :: "dbval \<Rightarrow> exn + string" where
  "attr_lower (DStr s) = Inr (py_lower s)"
| "attr_lower v =
     Inl (AttributeError (quoted (type_name v) @ '' object has no attribute '' @ quoted ''lower''))"

section \<open>Drivers, connections and the world\<close>

text \<open>
  What a cursor holds after \<open>cursor.execute(query)\<close> returned: \<open>cursor.description\<close>
  (\<open>None\<close> when the statement produced no result set, else the column names), the rows
  \<open>cursor.fetchall()\<close> would return, and \<open>cursor.rowcount\<close>. \<open>Raises msg\<close> is an execute
  that raised the driver's error with message \<open>msg\<close>.
\<close>

record cursor =
  description :: "string list option"
  fetchall :: "dbval list list"
  rowcount :: int

datatype outcome = Raises string | Returns cursor

text \<open>
  The libraries the program calls, as parameters: \<open>pyodbc.connect\<close> and
  \<open>psycopg2.connect\<close> (\<open>Some msg\<close>: the call raises with that message), the groups of
  the URI pattern of \<open>_parse_connection_string\<close> under \<open>re.match\<close>, what the database
  answers to a statement, for the cache key \<open>hashlib.md5(...).hexdigest()\<close> and the
  \<open>str()\<close> of the tuple of positional arguments, and the number of frames the
  interpreter's recursion limit leaves to \<open>get_ddl\<close>.
\<close>

record env =
  pyodbc_connect :: "string \<Rightarrow> string option"
  psycopg2_connect :: "(string \<times> string) list \<Rightarrow> string option"
  uri_match ::
    "string \<Rightarrow> (string option \<times> string option \<times> string option \<times> string option \<times> string option) option"
  cursor_execute :: "string \<Rightarrow> outcome"
  md5_hexdigest :: "string \<Rightarrow> string"
  str_args :: "string list \<Rightarrow> string"
  frames :: nat

text \<open>
  The calls that reach a driver, in order: a connection handed out under a fresh handle,
  a connect that raised, a statement executed on a handle, a handle closed.
\<close>

datatype call = Connected nat | ConnectFailed | Ran nat string | Closed nat

text \<open>
  The JSON text kept in the cache store is represented by the document it denotes, a
  number that is not an integer by the \<open>repr\<close> of the float it is read as;
  \<open>Garbled s\<close> is a stored text \<open>s\<close> that is not JSON.
\<close>

datatype json =
    JNull | JBool bool | JNum int | JReal string | JStr string | JArr "json list"
  | JObj "(string \<times> json) list"

datatype cached_text = Json json | Garbled string

text \<open>
  The world outside the process: the handles the drivers have handed out and those on
  which \<open>close()\<close> has not been called, the log of driver calls, and the cache store with
  its clock (an entry is a key, its text and the time it expires). \<open>get_fails\<close> and \<open>setex_fails\<close> say whether the store
  fails a read or a write (unreachable, read-only, out of memory).
\<close>

record world =
  next_handle :: nat
  open_handles :: "nat list"
  calls :: "call list"
  store :: "(string \<times> cached_text \<times> int) list"
  clock :: int
  get_fails :: bool
  setex_fails :: bool

datatype dialect = ODBC | Postgres

text \<open>\<open>BaseConnector.__init__\<close>: the connection string, and no connection.\<close>

record connector =
  dialect :: dialect
  connection_string :: string
  connection :: "nat option"

definition new_connector :: "dialect \<Rightarrow> string \<Rightarrow> connector" where
  "new_connector d s = \<lparr>dialect = d, connection_string = s, connection = None\<rparr>"

subsection \<open>\<open>get_db_connector\<close> (app/db/connector.py)\<close>

definition get_db_connector :: "string \<Rightarrow> string \<Rightarrow> exn + connector" where
  "get_db_connector conn_string db_type =
     (if py_lower db_type \<in> set [''fabric'', ''odbc'', ''microsoft_fabric'']
      then Inr (new_connector ODBC conn_string)
      else if py_lower db_type \<in> set [''postgres'', ''postgresql'']
      then Inr (new_connector Postgres conn_string)
      else Inl (ValueError (''Unsupported database type: '' @ db_type)))"

subsection \<open>\<open>connect\<close> and \<open>disconnect\<close>\<close>

text \<open>A driver's connect that succeeded: a fresh handle, now open, stored in the connector.\<close>

definition establish :: "connector \<times> world \<Rightarrow> connector \<times> world" where
  "establish = (\<lambda>(c, w).
     (c\<lparr>connection := Some (next_handle w)\<rparr>,
      w\<lparr>next_handle := Suc (next_handle w),
        open_handles := next_handle w # open_handles w,
        calls := calls w @ [Connected (next_handle w)]\<rparr>))"

definition connect_failed :: "connector \<times> world \<Rightarrow> connector \<times> world" where
  "connect_failed = (\<lambda>(c, w). (c, w\<lparr>calls := calls w @ [ConnectFailed]\<rparr>))"

definition odbc_connect :: "env \<Rightarrow> (connector \<times> world, bool) action" where
  "odbc_connect env = (\<lambda>(c, w).
     case pyodbc_connect env (connection_string c) of
       Some msg \<Rightarrow>
         (Inl (ConnectionError (''Failed to connect to ODBC database: '' @ msg)),
          connect_failed (c, w))
     | None \<Rightarrow> (Inr True, establish (c, w)))"

text \<open>\<open>if g: params[name] = g\<close> for the groups of the URI match, in the source's order.\<close>

definition group_params :: "(string \<times> string option) list \<Rightarrow> (string \<times> string) list" where
  "group_params gs =
     concat (map (\<lambda>(name, g). case g of None \<Rightarrow> [] | Some v \<Rightarrow> if v = [] then [] else [(name, v)]) gs)"

definition parse_connection_string :: "env \<Rightarrow> string \<Rightarrow> exn + (string \<times> string) list" where
  "parse_connection_string env conn_string =
     (if CHR ''='' \<in> set conn_string then
        Inr (py_dict (map (split_once CHR ''='')
                       (filter (\<lambda>part. CHR ''='' \<in> set part) (py_split conn_string))))
      else if contains ''://'' conn_string then
        (case uri_match env conn_string of
           Some (user, password, host, port, dbname) \<Rightarrow>
             Inr (group_params [(''user'', user), (''password'', password), (''host'', host),
                                (''port'', port), (''dbname'', dbname)])
         | None \<Rightarrow>
             Inl (ValueError (''Invalid PostgreSQL connection string format: ''
                              @ conn_string)))
      else Inl (ValueError (''Unsupported PostgreSQL connection string format: ''
                            @ conn_string)))"

definition pg_connect :: "env \<Rightarrow> (connector \<times> world, bool) action" where
  "pg_connect env = (\<lambda>(c, w).
     case parse_connection_string env (connection_string c) of
       Inl e \<Rightarrow>
         (Inl (ConnectionError (''Failed to connect to PostgreSQL database: '' @ exn_str e)),
          (c, w))
     | Inr params \<Rightarrow>
         (case psycopg2_connect env params of
            Some msg \<Rightarrow>
              (Inl (ConnectionError (''Failed to connect to PostgreSQL database: '' @ msg)),
               connect_failed (c, w))
          | None \<Rightarrow> (Inr True, establish (c, w))))"

definition connect :: "env \<Rightarrow> (connector \<times> world, bool) action" where
  "connect env = (\<lambda>(c, w).
     case dialect c of ODBC \<Rightarrow> odbc_connect env (c, w) | Postgres \<Rightarrow> pg_connect env (c, w))"

text \<open>\<open>BaseConnector.disconnect\<close>: close the connection if one is held.\<close>

definition disconnect :: "(connector \<times> world, unit) action" where
  "disconnect = (\<lambda>(c, w).
     case connection c of
       None \<Rightarrow> (Inr (), (c, w))
     | Some h \<Rightarrow>
         (Inr (), (c\<lparr>connection := None\<rparr>,
                   w\<lparr>open_handles := removeAll h (open_handles w),
                     calls := calls w @ [Closed h]\<rparr>)))"

subsection \<open>\<open>execute_query\<close>\<close>

record query_result =
  columns :: "string list"
  data :: "row list"
  row_count :: int
  affected_rows :: int

text \<open>\<open>if cursor.description:\<close> holds for a description that is neither \<open>None\<close> nor empty.\<close>

definition has_result_set :: "cursor \<Rightarrow> bool" where
  "has_result_set cur = (case description cur of None \<Rightarrow> False | Some cols \<Rightarrow> cols \<noteq> [])"

definition column_names :: "cursor \<Rightarrow> string list" where
  "column_names cur = (case description cur of None \<Rightarrow> [] | Some cols \<Rightarrow> cols)"

text \<open>
  \<open>if not self.connection: self.connect()\<close>, then \<open>self.connection.cursor()\<close>: the handle
  the statement runs on.
\<close>

definition ensure_connected :: "env \<Rightarrow> (connector \<times> world, nat) action" where
  "ensure_connected env = (\<lambda>(c, w).
     case connection c of
       Some h \<Rightarrow> (Inr h, (c, w))
     | None \<Rightarrow>
         (case connect env (c, w) of
            (Inl e, s) \<Rightarrow> (Inl e, s)
          | (Inr ok, (c', w')) \<Rightarrow>
              (case connection c' of
                 Some h \<Rightarrow> (Inr h, (c', w'))
               | None \<Rightarrow>
                   (Inl (AttributeError (quoted ''NoneType'' @ '' object has no attribute ''
                                         @ quoted ''cursor'')), (c', w')))))"

text \<open>\<open>cursor.execute(query)\<close> on handle \<open>h\<close>: logged, and answered by the database.\<close>

definition run_query :: "env \<Rightarrow> string \<Rightarrow> nat \<Rightarrow> (connector \<times> world, cursor) action" where
  "run_query env query h = (\<lambda>(c, w).
     (case cursor_execute env query of
        Raises msg \<Rightarrow> Inl (DatabaseError msg)
      | Returns cur \<Rightarrow> Inr cur,
      (c, w\<lparr>calls := calls w @ [Ran h query]\<rparr>)))"

text \<open>\<open>ODBCConnector.execute_query\<close>; a row becomes \<open>dict(zip(columns, row))\<close>.\<close>

definition odbc_result :: "cursor \<Rightarrow> query_result" where
  "odbc_result cur =
     (let columns = (if has_result_set cur then column_names cur else []);
          results = (if has_result_set cur
                     then map (\<lambda>row. py_dict (zip columns row)) (fetchall cur) else [])
      in \<lparr>columns = columns,
          data = results,
          row_count = (if has_result_set cur then int (length results) else rowcount cur),
          affected_rows = (if \<not> has_result_set cur then rowcount cur else 0)\<rparr>)"

definition odbc_execute_query :: "env \<Rightarrow> string \<Rightarrow> (connector \<times> world, query_result) action" where
  "odbc_execute_query env query =
     and_then (ensure_connected env) (\<lambda>h.
     and_then (run_query env query h) (\<lambda>cur. ret (odbc_result cur)))"

text \<open>
  \<open>PostgresConnector.execute_query\<close>; \<open>dict(row)\<close> of a \<open>DictRow\<close> maps each column name
  to the row's value, a repeated name to its last one, as \<open>dict(zip(columns, row))\<close> does.
\<close>

definition pg_result :: "cursor \<Rightarrow> query_result" where
  "pg_result cur =
     (if has_result_set cur then
        (let columns = column_names cur;
             results = map (\<lambda>row. py_dict (zip columns row)) (fetchall cur)
         in \<lparr>columns = columns, data = results,
             row_count = int (length results), affected_rows = 0\<rparr>)
      else \<lparr>columns = [], data = [], row_count = 0, affected_rows = rowcount cur\<rparr>)"

definition pg_execute_query :: "env \<Rightarrow> string \<Rightarrow> (connector \<times> world, query_result) action" where
  "pg_execute_query env query =
     and_then (ensure_connected env) (\<lambda>h.
     and_then (run_query env query h) (\<lambda>cur. ret (pg_result cur)))"

definition execute_query :: "env \<Rightarrow> string \<Rightarrow> (connector \<times> world, query_result) action" where
  "execute_query env query = (\<lambda>(c, w).
     case dialect c of
       ODBC \<Rightarrow> odbc_execute_query env query (c, w)
     | Postgres \<Rightarrow> pg_execute_query env query (c, w))"

section \<open>\<open>ODBCConnector.get_ddl\<close> (app/db/odbc_connector.py)\<close>

type_synonym 'a conn_action = "(connector \<times> world, 'a) action"

text \<open>
  A triple-quoted statement of the source: a line break and the indentation before every
  line, and after the last one.
\<close>

definition block :: "nat \<Rightarrow> string list \<Rightarrow> string" where
  "block indent ls =
     concat (map (\<lambda>l. CHR 0x0A # replicate indent CHR '' '' @ l) ls)
       @ CHR 0x0A # replicate indent CHR '' ''"

definition odbc_tables_query :: string where
  "odbc_tables_query =
     block 16
       [''SELECT name'',
        ''FROM sys.tables'',
        ''ORDER BY name'']"

definition odbc_columns_query :: "string \<Rightarrow> string" where
  "odbc_columns_query object_name =
     block 16
       [''SELECT '',
        ''    c.name AS column_name,'',
        ''    t.name AS data_type,'',
        ''    c.max_length,'',
        ''    c.precision,'',
        ''    c.scale,'',
        ''    c.is_nullable,'',
        ''    c.is_identity,'',
        ''    c.column_id'',
        ''FROM sys.columns c'',
        ''JOIN sys.types t ON c.user_type_id = t.user_type_id'',
        ''JOIN sys.tables tbl ON c.object_id = tbl.object_id'',
        ''WHERE tbl.name = '' @ quoted object_name,
        ''ORDER BY c.column_id'']"

definition odbc_pk_query :: "string \<Rightarrow> string" where
  "odbc_pk_query object_name =
     block 16
       [''SELECT '',
        ''    i.name AS index_name,'',
        ''    c.name AS column_name'',
        ''FROM sys.indexes i'',
        ''JOIN sys.index_columns ic ON i.object_id = ic.object_id AND i.index_id = ic.index_id'',
        ''JOIN sys.columns c ON ic.object_id = c.object_id AND ic.column_id = c.column_id'',
        ''JOIN sys.tables t ON i.object_id = t.object_id'',
        ''WHERE i.is_primary_key = 1 AND t.name = '' @ quoted object_name,
        ''ORDER BY ic.key_ordinal'']"

definition odbc_fk_query :: "string \<Rightarrow> string" where
  "odbc_fk_query object_name =
     block 16
       [''SELECT '',
        ''    fk.name AS fk_name,'',
        ''    OBJECT_NAME(fk.parent_object_id) AS parent_table,'',
        ''    COL_NAME(fkc.parent_object_id, fkc.parent_column_id) AS parent_column,'',
        ''    OBJECT_NAME(fk.referenced_object_id) AS referenced_table,'',
        ''    COL_NAME(fkc.referenced_object_id, fkc.referenced_column_id) AS referenced_column'',
        ''FROM sys.foreign_keys fk'',
        ''JOIN sys.foreign_key_columns fkc ON fk.object_id = fkc.constraint_object_id'',
        ''WHERE OBJECT_NAME(fk.parent_object_id) = '' @ quoted object_name,
        ''ORDER BY fk.name, fkc.constraint_column_id'']"

definition odbc_view_query :: "string \<Rightarrow> string" where
  "odbc_view_query object_name =
     block 12
       [''SELECT definition '',
        ''FROM sys.sql_modules m'',
        ''JOIN sys.views v ON m.object_id = v.object_id'',
        ''WHERE v.name = '' @ quoted object_name]"

definition odbc_procedure_query :: "string \<Rightarrow> string" where
  "odbc_procedure_query object_name =
     block 12
       [''SELECT definition '',
        ''FROM sys.sql_modules m'',
        ''JOIN sys.procedures p ON m.object_id = p.object_id'',
        ''WHERE p.name = '' @ quoted object_name]"

definition odbc_function_query :: "string \<Rightarrow> string" where
  "odbc_function_query object_name =
     block 12
       [''SELECT definition '',
        ''FROM sys.sql_modules m'',
        ''JOIN sys.objects o ON m.object_id = o.object_id'',
        ''WHERE o.type_desc LIKE '%FUNCTION%' AND o.name = '' @ quoted object_name]"

subsection \<open>One table\<close>

text \<open>
  What one pass of the column loop appends for \<open>col\<close>, the separating comma apart: name
  and type, the length or precision, the null constraint, the identity property.
\<close>

definition odbc_column :: "row \<Rightarrow> exn + string" where
  "odbc_column col =
     thn (getitem col ''column_name'') (\<lambda>column_name.
     thn (getitem col ''data_type'') (\<lambda>data_type.
     thn (if data_type \<in> set (map DStr [''varchar'', ''nvarchar'', ''char'', ''nchar'']) then
            thn (getitem col ''max_length'') (\<lambda>max_length.
              Inr (''('' @ (if \<not> eq_minus_one max_length then py_str max_length else ''MAX'')
                   @ '')''))
          else if data_type \<in> set (map DStr [''decimal'', ''numeric'']) then
            thn (getitem col ''precision'') (\<lambda>precision.
            thn (getitem col ''scale'') (\<lambda>scale.
              Inr (''('' @ py_str precision @ '', '' @ py_str scale @ '')'')))
          else Inr []) (\<lambda>modifier.
     thn (getitem col ''is_nullable'') (\<lambda>is_nullable.
     thn (getitem col ''is_identity'') (\<lambda>is_identity.
       Inr (''    '' @ py_str column_name @ '' '' @ py_str data_type @ modifier
            @ (if \<not> truthy is_nullable then '' NOT NULL'' else '' NULL'')
            @ (if truthy is_identity then '' IDENTITY(1,1)'' else [])))))))"

text \<open>\<open>for i, col in enumerate(columns_info["data"])\<close>, with \<open>n\<close> the number of columns.\<close>

fun odbc_columns :: "nat \<Rightarrow> nat \<Rightarrow> row list \<Rightarrow> string \<Rightarrow> exn + string" where
  "odbc_columns n i [] ddl = Inr ddl"
| "odbc_columns n i (col # rest) ddl =
     thn (odbc_column col) (\<lambda>line.
       odbc_columns n (i + 1) rest
         (ddl @ line @ (if int i < int n - 1 then '',\<newline>'' else [])))"

fun column_of :: "string \<Rightarrow> row list \<Rightarrow> exn + dbval list" where
  "column_of k [] = Inr []"
| "column_of k (r # rs) = thn (getitem r k) (\<lambda>v. thn (column_of k rs) (\<lambda>vs. Inr (v # vs)))"

definition odbc_primary_key :: "string \<Rightarrow> row list \<Rightarrow> string \<Rightarrow> exn + string" where
  "odbc_primary_key object_name pk_rows ddl =
     (case pk_rows of
        [] \<Rightarrow> Inr ddl
      | first # others \<Rightarrow>
          thn (column_of ''column_name'' pk_rows) (\<lambda>names.
          thn (py_join '', '' names) (\<lambda>pk_columns.
          thn (getitem first ''index_name'') (\<lambda>pk_name.
            Inr (ddl @ ''\<newline>\<newline>ALTER TABLE '' @ object_name @ '' ADD CONSTRAINT ''
                 @ py_str pk_name @ '' PRIMARY KEY ('' @ pk_columns @ '');'')))))"

text \<open>The foreign keys, grouped by constraint name in the order of first appearance.\<close>

record fk_data =
  parent_table :: dbval
  referenced_table :: dbval
  parent_columns :: "dbval list"
  referenced_columns :: "dbval list"

fun fk_group :: "row list \<Rightarrow> (dbval \<times> fk_data) list \<Rightarrow> exn + (dbval \<times> fk_data) list" where
  "fk_group [] fk_dict = Inr fk_dict"
| "fk_group (r # rest) fk_dict =
     thn (getitem r ''fk_name'') (\<lambda>fk_name.
     thn (case map_of fk_dict fk_name of
            Some g \<Rightarrow> Inr g
          | None \<Rightarrow>
              thn (getitem r ''parent_table'') (\<lambda>pt.
              thn (getitem r ''referenced_table'') (\<lambda>rt.
                Inr \<lparr>parent_table = pt, referenced_table = rt,
                     parent_columns = [], referenced_columns = []\<rparr>))) (\<lambda>g.
     thn (getitem r ''parent_column'') (\<lambda>pc.
     thn (getitem r ''referenced_column'') (\<lambda>rc.
       fk_group rest
         (AList.update fk_name
            (g\<lparr>parent_columns := parent_columns g @ [pc],
               referenced_columns := referenced_columns g @ [rc]\<rparr>) fk_dict)))))"

fun odbc_fk_statements :: "(dbval \<times> fk_data) list \<Rightarrow> string \<Rightarrow> exn + string" where
  "odbc_fk_statements [] ddl = Inr ddl"
| "odbc_fk_statements ((fk_name, fk) # rest) ddl =
     thn (py_join '', '' (parent_columns fk)) (\<lambda>parent_cols.
     thn (py_join '', '' (referenced_columns fk)) (\<lambda>ref_cols.
       odbc_fk_statements rest
         (ddl @ ''\<newline>\<newline>ALTER TABLE '' @ py_str (parent_table fk) @ '' ADD CONSTRAINT ''
              @ py_str fk_name @ '' ''
              @ ''FOREIGN KEY ('' @ parent_cols @ '') REFERENCES ''
              @ py_str (referenced_table fk) @ '' ('' @ ref_cols @ '');'')))"

definition odbc_foreign_keys :: "row list \<Rightarrow> string \<Rightarrow> exn + string" where
  "odbc_foreign_keys fk_rows ddl =
     (if fk_rows = [] then Inr ddl
      else thn (fk_group fk_rows []) (\<lambda>fk_dict. odbc_fk_statements fk_dict ddl))"

text \<open>The branch of \<open>get_ddl\<close> for a table other than \<open>'*'\<close>.\<close>

definition odbc_table_ddl :: "env \<Rightarrow> string \<Rightarrow> string conn_action" where
  "odbc_table_ddl env object_name =
     and_then (odbc_execute_query env (odbc_columns_query object_name)) (\<lambda>columns_info.
     and_then (lift (odbc_columns (length (data columns_info)) 0 (data columns_info)
                       (''CREATE TABLE '' @ object_name @ '' (\<newline>''))) (\<lambda>ddl.
     and_then (odbc_execute_query env (odbc_pk_query object_name)) (\<lambda>pk_info.
     and_then (lift (odbc_primary_key object_name (data pk_info) (ddl @ ''\<newline>);''))) (\<lambda>ddl.
     and_then (odbc_execute_query env (odbc_fk_query object_name)) (\<lambda>fk_info.
       lift (odbc_foreign_keys (data fk_info) ddl))))))"

subsection \<open>\<open>get_ddl\<close>\<close>

text \<open>
  The first value a statement returned under \<open>key\<close>, after \<open>if info["data"]:\<close> held.
\<close>

definition first_value :: "row list \<Rightarrow> string \<Rightarrow> exn + dbval" where
  "first_value rows key = (case rows of [] \<Rightarrow> Inl (KeyError key) | r # _ \<Rightarrow> getitem r key)"

text \<open>
  The loop over the tables of \<open>'*'\<close>; \<open>get\<close> is the recursive call \<open>self.get_ddl\<close>.
\<close>

fun odbc_each_table ::
  "(dbval \<Rightarrow> string \<Rightarrow> dbval conn_action) \<Rightarrow> row list \<Rightarrow> string \<Rightarrow> string conn_action" where
  "odbc_each_table get [] all_ddl = ret all_ddl"
| "odbc_each_table get (table # rest) all_ddl =
     and_then (lift (getitem table ''name'')) (\<lambda>table_name.
     and_then (get table_name ''table'') (\<lambda>table_ddl.
       odbc_each_table get rest (all_ddl @ ''\<newline>\<newline>'' @ py_str table_ddl)))"

text \<open>
  \<open>get_ddl\<close> calls itself for every table of \<open>'*'\<close>. The first argument counts the frames
  the interpreter still allows: at none left the call raises \<open>RecursionError\<close>. The name
  is whatever the caller or the catalog handed over; the statements format it with
  \<open>str()\<close>. The result is a \<open>str\<close>, or for a procedure or function whatever the catalog
  holds as its definition.
\<close>

primrec odbc_get_ddl :: "nat \<Rightarrow> env \<Rightarrow> dbval \<Rightarrow> string \<Rightarrow> dbval conn_action" where
  "odbc_get_ddl 0 env object_name object_type =
     raise (RecursionError ''maximum recursion depth exceeded'')"
| "odbc_get_ddl (Suc depth) env object_name object_type =
     (let object_type = py_lower object_type in
      if object_type = ''table'' then
        (if object_name = DStr ''*'' then
           and_then (odbc_execute_query env odbc_tables_query) (\<lambda>tables_result.
             if data tables_result = [] then ret (DStr ''-- No tables found in database'')
             else and_then (odbc_each_table (odbc_get_ddl depth env) (data tables_result) [])
                    (\<lambda>all_ddl. ret (DStr (py_strip all_ddl))))
         else and_then (odbc_table_ddl env (py_str object_name)) (\<lambda>ddl. ret (DStr ddl)))
      else if object_type = ''view'' then
        and_then (odbc_execute_query env (odbc_view_query (py_str object_name))) (\<lambda>view_info.
          if data view_info \<noteq> [] then
            and_then (lift (first_value (data view_info) ''definition'')) (\<lambda>defn.
              ret (DStr (''CREATE VIEW '' @ py_str object_name @ '' AS\<newline>''
                         @ py_str defn)))
          else ret (DStr (''-- View '' @ py_str object_name @ '' definition not found'')))
      else if object_type \<in> set [''procedure'', ''stored_procedure''] then
        and_then (odbc_execute_query env (odbc_procedure_query (py_str object_name)))
          (\<lambda>proc_info.
             if data proc_info \<noteq> [] then lift (first_value (data proc_info) ''definition'')
             else ret (DStr (''-- Stored procedure '' @ py_str object_name
                             @ '' definition not found'')))
      else if object_type = ''function'' then
        and_then (odbc_execute_query env (odbc_function_query (py_str object_name)))
          (\<lambda>func_info.
             if data func_info \<noteq> [] then lift (first_value (data func_info) ''definition'')
             else ret (DStr (''-- Function '' @ py_str object_name @ '' definition not found'')))
      else ret (DStr (''-- DDL generation for '' @ object_type @ '' is not supported yet'')))"

section \<open>\<open>PostgresConnector.get_ddl\<close> (app/db/postgres_connector.py)\<close>

text \<open>A literal of several lines, given line by line.\<close>

definition py_text :: "string list \<Rightarrow> string" where
  "py_text ls = join_strs [CHR 0x0A] ls"

subsection \<open>\<open>_create_tabledef_function\<close>\<close>

definition create_function_query :: string where
  "create_function_query =
     py_text
       [[],
        ''        CREATE OR REPLACE FUNCTION pg_get_tabledef(p_table_oid oid)'',
        ''        RETURNS text AS'',
        ''        $BODY$'',
        ''        DECLARE'',
        ''            v_table_name text;'',
        ''            v_schema_name text;'',
        ''            v_ret text;'',
        ''            v_column_record record;'',
        ''            v_constraint_record record;'',
        ''            v_index_record record;'',
        ''            v_comment_record record;'',
        ''        BEGIN'',
        ''            -- Get schema and table name'',
        ''            SELECT n.nspname, c.relname INTO v_schema_name, v_table_name'',
        ''            FROM pg_class c'',
        ''            JOIN pg_namespace n ON c.relnamespace = n.oid'',
        ''            WHERE c.oid = p_table_oid;'',
        ''            '',
        ''            -- Start the table definition'',
        ''            v_ret := 'CREATE TABLE ' || v_schema_name || '.' || v_table_name || ' (' || E'' @ [CHR 0x27],
        [CHR 0x27] @ '';'',
        ''            '',
        ''            -- Add columns'',
        ''            FOR v_column_record IN '',
        ''                SELECT '',
        ''                    a.attname as column_name,'',
        ''                    pg_catalog.format_type(a.atttypid, a.atttypmod) as data_type,'',
        ''                    CASE WHEN a.attnotnull THEN 'NOT NULL' ELSE 'NULL' END as nullable,'',
        ''                    CASE WHEN a.atthasdef THEN pg_get_expr(d.adbin, d.adrelid) ELSE '' @ [CHR 0x27, CHR 0x27] @ '' END as default_value'',
        ''                FROM pg_catalog.pg_attribute a'',
        ''                LEFT JOIN pg_catalog.pg_attrdef d ON (a.attrelid = d.adrelid AND a.attnum = d.adnum)'',
        ''                WHERE a.attrelid = p_table_oid'',
        ''                AND a.attnum > 0'',
        ''                AND NOT a.attisdropped'',
        ''                ORDER BY a.attnum'',
        ''            LOOP'',
        ''                v_ret := v_ret || '    ' || v_column_record.column_name || ' ' || v_column_record.data_type;'',
        ''                IF v_column_record.default_value != '' @ [CHR 0x27, CHR 0x27] @ '' THEN'',
        ''                    v_ret := v_ret || ' DEFAULT ' || v_column_record.default_value;'',
        ''                END IF;'',
        ''                v_ret := v_ret || ' ' || v_column_record.nullable || ',' || E'' @ [CHR 0x27],
        [CHR 0x27] @ '';'',
        ''            END LOOP;'',
        ''            '',
        ''            -- Remove the last comma'',
        ''            v_ret := substring(v_ret, 1, length(v_ret) - 2) || E'' @ [CHR 0x27],
        '');' || E'' @ [CHR 0x27],
        [CHR 0x27] @ '';'',
        ''            '',
        ''            -- Add primary key'',
        ''            FOR v_constraint_record IN'',
        ''                SELECT con.conname, pg_get_constraintdef(con.oid) as condef'',
        ''                FROM pg_constraint con'',
        ''                WHERE con.conrelid = p_table_oid AND con.contype = 'p'' @ [CHR 0x27],
        ''            LOOP'',
        ''                v_ret := v_ret || E'' @ [CHR 0x27],
        [CHR 0x27] @ '' || 'ALTER TABLE ' || v_schema_name || '.' || v_table_name || '',
        ''                         ' ADD CONSTRAINT ' || v_constraint_record.conname || '',
        ''                         ' ' || v_constraint_record.condef || ';';'',
        ''            END LOOP;'',
        ''            '',
        ''            -- Add other constraints (foreign keys, unique, etc.)'',
        ''            FOR v_constraint_record IN'',
        ''                SELECT con.conname, pg_get_constraintdef(con.oid) as condef'',
        ''                FROM pg_constraint con'',
        ''                WHERE con.conrelid = p_table_oid AND con.contype != 'p'' @ [CHR 0x27],
        ''            LOOP'',
        ''                v_ret := v_ret || E'' @ [CHR 0x27],
        [CHR 0x27] @ '' || 'ALTER TABLE ' || v_schema_name || '.' || v_table_name || '',
        ''                         ' ADD CONSTRAINT ' || v_constraint_record.conname || '',
        ''                         ' ' || v_constraint_record.condef || ';';'',
        ''            END LOOP;'',
        ''            '',
        ''            -- Add indexes'',
        ''            FOR v_index_record IN'',
        ''                SELECT indexrelid::regclass as index_name, pg_get_indexdef(indexrelid) as indexdef'',
        ''                FROM pg_index'',
        ''                WHERE indrelid = p_table_oid AND indisprimary = false'',
        ''            LOOP'',
        ''                v_ret := v_ret || E'' @ [CHR 0x27],
        [CHR 0x27] @ '' || v_index_record.indexdef || ';';'',
        ''            END LOOP;'',
        ''            '',
        ''            -- Add comments'',
        ''            FOR v_comment_record IN'',
        ''                SELECT col.attname as column_name, '',
        ''                       pg_description.description'',
        ''                FROM pg_description'',
        ''                JOIN pg_attribute col ON pg_description.objoid = p_table_oid'',
        ''                                    AND col.attrelid = p_table_oid'',
        ''                                    AND pg_description.objsubid = col.attnum'',
        ''                WHERE NOT col.attisdropped'',
        ''            LOOP'',
        ''                IF v_comment_record.description IS NOT NULL THEN'',
        ''                    v_ret := v_ret || E'' @ [CHR 0x27],
        [CHR 0x27] @ '' || 'COMMENT ON COLUMN ' || v_schema_name || '.' || v_table_name || '.' || '',
        ''                             v_comment_record.column_name || ' IS '' @ [CHR 0x27, CHR 0x27, CHR 0x27] @ '' || '',
        ''                             replace(v_comment_record.description, '' @ [CHR 0x27, CHR 0x27, CHR 0x27, CHR 0x27] @ '', '' @ [CHR 0x27, CHR 0x27, CHR 0x27, CHR 0x27, CHR 0x27, CHR 0x27] @ '') || '' @ [CHR 0x27, CHR 0x27, CHR 0x27] @ '';';'',
        ''                END IF;'',
        ''            END LOOP;'',
        ''            '',
        ''            RETURN v_ret;'',
        ''        END;'',
        ''        $BODY$'',
        ''        LANGUAGE plpgsql;'',
        ''        '']"

text \<open>The helper is created on a best-effort basis: whatever the statement raises is dropped.\<close>

definition create_tabledef_function :: "env \<Rightarrow> unit conn_action" where
  "create_tabledef_function env =
     try_except (and_then (pg_execute_query env create_function_query) (\<lambda>r. ret ()))
       (\<lambda>e. ret ())"

subsection \<open>The statements\<close>

definition pg_tables_query :: string where
  "pg_tables_query =
     block 16
       [''SELECT tablename AS table_name'',
        ''FROM pg_tables'',
        ''WHERE schemaname = 'public'' @ [CHR 0x27],
        ''ORDER BY tablename'']"

text \<open>
  The same statement stands at several depths of indentation in the source; \<open>indent\<close>
  is the depth of the place that builds it.
\<close>

definition pg_exists_query :: "nat \<Rightarrow> string \<Rightarrow> string" where
  "pg_exists_query indent name =
     block indent [''SELECT to_regclass('' @ quoted name @ '') IS NOT NULL as exists;'']"

definition pg_tabledef_query :: "nat \<Rightarrow> string \<Rightarrow> string" where
  "pg_tabledef_query indent name =
     block indent [''SELECT pg_get_tabledef('' @ quoted name @ ''::regclass::oid) as ddl;'']"

definition pg_case_query_schema :: "string \<Rightarrow> string \<Rightarrow> string" where
  "pg_case_query_schema schema name =
     block 28
       [''SELECT schemaname || '.' || tablename AS full_name'',
        ''FROM pg_tables '',
        ''WHERE LOWER(schemaname) = '' @ quoted schema @ '' '',
        ''AND LOWER(tablename) = '' @ quoted name]"

definition pg_case_query :: "string \<Rightarrow> string" where
  "pg_case_query search_name =
     block 28
       [''SELECT schemaname || '.' || tablename AS full_name'',
        ''FROM pg_tables '',
        ''WHERE LOWER(tablename) = '' @ quoted search_name @ '' '']"

definition pg_view_query :: "string \<Rightarrow> string" where
  "pg_view_query object_name =
     block 12
       [''SELECT '',
        ''    'CREATE OR REPLACE VIEW ' || schemaname || '.' || viewname || ' AS''
          @ [CHR 0x0A, CHR 0x27] @ '' ||'',
        ''    definition as ddl'',
        ''FROM pg_views'',
        ''WHERE viewname = '' @ quoted object_name]"

definition pg_view_query_schema :: "string \<Rightarrow> string \<Rightarrow> string" where
  "pg_view_query_schema name schema =
     block 16
       [''SELECT '',
        ''    'CREATE OR REPLACE VIEW ' || schemaname || '.' || viewname || ' AS''
          @ [CHR 0x0A, CHR 0x27] @ '' ||'',
        ''    definition as ddl'',
        ''FROM pg_views'',
        ''WHERE viewname = '' @ quoted name @ '' AND schemaname = '' @ quoted schema]"

definition pg_function_query :: "string \<Rightarrow> string" where
  "pg_function_query object_name =
     block 12
       [''SELECT pg_get_functiondef(oid) as ddl'',
        ''FROM pg_proc'',
        ''WHERE proname = '' @ quoted object_name]"

definition pg_function_query_schema :: "string \<Rightarrow> string \<Rightarrow> string" where
  "pg_function_query_schema name schema =
     block 16
       [''SELECT pg_get_functiondef(p.oid) as ddl'',
        ''FROM pg_proc p'',
        ''JOIN pg_namespace n ON p.pronamespace = n.oid'',
        ''WHERE p.proname = '' @ quoted name @ '' AND n.nspname = '' @ quoted schema]"

definition pg_trigger_query :: "string \<Rightarrow> string" where
  "pg_trigger_query object_name =
     block 12
       [''SELECT '',
        ''    pg_get_triggerdef(t.oid) as ddl'',
        ''FROM pg_trigger t'',
        ''JOIN pg_class c ON t.tgrelid = c.oid'',
        ''WHERE t.tgname = '' @ quoted object_name]"

definition pg_sequence_query :: "string \<Rightarrow> string" where
  "pg_sequence_query object_name =
     block 12
       [''SELECT '',
        ''    'CREATE SEQUENCE ' || sequence_schema || '.' || sequence_name || '',
        ''    ' INCREMENT BY ' || increment || '',
        ''    ' MINVALUE ' || minimum_value || '',
        ''    ' MAXVALUE ' || maximum_value || '',
        ''    ' START WITH ' || start_value ||'',
        ''    CASE WHEN cycle_option = 'YES' THEN ' CYCLE' ELSE ' NO CYCLE' END ||'',
        ''    ';' as ddl'',
        ''FROM information_schema.sequences'',
        ''WHERE sequence_name = '' @ quoted object_name]"

subsection \<open>One table: the fallback chain\<close>

text \<open>
  \<open>exists_result["data"] and exists_result["data"][0].get("exists", False)\<close>, as a truth
  value.
\<close>

definition exists_hit :: "query_result \<Rightarrow> bool" where
  "exists_hit r =
     (case data r of
        [] \<Rightarrow> False
      | first # others \<Rightarrow>
          truthy (case map_of first ''exists'' of None \<Rightarrow> DBool False | Some v \<Rightarrow> v))"

text \<open>
  The top of the \<open>try\<close> block: the name the DDL statement is asked with. The exact name
  when the database knows it, else the lowercased name, the name under \<open>public.\<close>, the
  lowercased name under \<open>public.\<close>, whichever is known first, and the name as given when
  none is.
\<close>

definition pg_resolve :: "env \<Rightarrow> dbval \<Rightarrow> dbval conn_action" where
  "pg_resolve env object_name =
     and_then (pg_execute_query env (pg_exists_query 20 (py_str object_name))) (\<lambda>exists_result.
     if \<not> exists_hit exists_result then
       and_then (lift (attr_lower object_name)) (\<lambda>lowercase_name.
       and_then (pg_execute_query env (pg_exists_query 24 lowercase_name)) (\<lambda>exists_result.
       if exists_hit exists_result then ret (DStr lowercase_name)
       else
         and_then (pg_execute_query env (pg_exists_query 28 (''public.'' @ py_str object_name)))
           (\<lambda>exists_result.
         if exists_hit exists_result then ret (DStr (''public.'' @ py_str object_name))
         else
           and_then (pg_execute_query env (pg_exists_query 32 (''public.'' @ lowercase_name)))
             (\<lambda>exists_result.
           if exists_hit exists_result then ret (DStr (''public.'' @ lowercase_name))
           else ret object_name))))
     else ret object_name)"

text \<open>The rest of the \<open>try\<close> block: the DDL statement for the resolved name.\<close>

definition pg_fetch_tabledef :: "env \<Rightarrow> dbval \<Rightarrow> dbval conn_action" where
  "pg_fetch_tabledef env object_name =
     and_then (pg_execute_query env (pg_tabledef_query 20 (py_str object_name))) (\<lambda>table_ddl.
     if data table_ddl \<noteq> [] then lift (first_value (data table_ddl) ''ddl'')
     else ret (DStr (''-- Table '' @ py_str object_name @ '' definition not found'')))"

text \<open>
  The \<open>except\<close> block, entered with the exception \<open>e\<close> and the name as it stood when \<open>e\<close>
  was raised: a case-insensitive search of \<open>pg_tables\<close>, by \<open>case_query\<close>, the statement
  \<open>pg_lookup_query\<close> builds from the lowercased name, and a second try with the name found.
  Whatever this raises in turn ends in a comment.
\<close>

definition pg_lookup_query :: "string \<Rightarrow> string" where
  "pg_lookup_query search_name =
     (if CHR ''.'' \<in> set search_name then
        (case split_once CHR ''.'' search_name of
           (schema, name) \<Rightarrow> pg_case_query_schema (py_lower schema) (py_lower name))
      else pg_case_query search_name)"

definition pg_case_lookup :: "env \<Rightarrow> dbval \<Rightarrow> dbval option conn_action" where
  "pg_case_lookup env object_name =
     and_then (lift (attr_lower object_name)) (\<lambda>search_name.
     and_then (pg_execute_query env (pg_lookup_query search_name)) (\<lambda>case_result.
     if data case_result \<noteq> [] then
       and_then (lift (first_value (data case_result) ''full_name'')) (\<lambda>actual_table_name.
       and_then (pg_execute_query env (pg_tabledef_query 28 (py_str actual_table_name)))
         (\<lambda>table_ddl.
       if data table_ddl \<noteq> [] then
         and_then (lift (first_value (data table_ddl) ''ddl'')) (\<lambda>ddl. ret (Some ddl))
       else ret None))
     else ret None))"

definition pg_table_fallback :: "env \<Rightarrow> dbval \<Rightarrow> exn \<Rightarrow> dbval conn_action" where
  "pg_table_fallback env object_name e =
     try_except
       (and_then (pg_case_lookup env object_name) (\<lambda>found.
          case found of
            Some ddl \<Rightarrow> ret ddl
          | None \<Rightarrow>
              ret (DStr (''-- Table '' @ quoted (py_str object_name) @ '' not found. Error: ''
                         @ exn_str e))))
       (\<lambda>e2. ret (DStr (''-- Error getting table definition: '' @ exn_str e2)))"

text \<open>The branch of \<open>get_ddl\<close> for a table other than \<open>'*'\<close>.\<close>

definition pg_table_ddl :: "env \<Rightarrow> dbval \<Rightarrow> dbval conn_action" where
  "pg_table_ddl env object_name =
     try_except
       (and_then (pg_resolve env object_name) (\<lambda>resolved.
          try_except (pg_fetch_tabledef env resolved) (pg_table_fallback env resolved)))
       (pg_table_fallback env object_name)"

subsection \<open>\<open>get_ddl\<close>\<close>

fun pg_each_table ::
  "(dbval \<Rightarrow> string \<Rightarrow> dbval conn_action) \<Rightarrow> row list \<Rightarrow> string \<Rightarrow> string conn_action" where
  "pg_each_table get [] all_ddl = ret all_ddl"
| "pg_each_table get (table # rest) all_ddl =
     and_then (lift (getitem table ''table_name'')) (\<lambda>table_name.
     and_then (get table_name ''table'') (\<lambda>table_ddl.
       pg_each_table get rest (all_ddl @ ''\<newline>\<newline>'' @ py_str table_ddl)))"

text \<open>\<open>"." in v\<close> and \<open>v + ";\n\n"\<close>, which raise \<open>TypeError\<close> unless \<open>v\<close> is a \<open>str\<close>.\<close>

fun has_dot :: "dbval \<Rightarrow> exn + bool" where
  "has_dot (DStr s) = Inr (CHR ''.'' \<in> set s)"
| "has_dot v = Inl (TypeError (''argument of type '' @ quoted (type_name v) @ '' is not iterable''))"

fun concat_str :: "dbval \<Rightarrow> string \<Rightarrow> exn + string" where
  "concat_str (DStr s) t = Inr (s @ t)"
| "concat_str v t =
     Inl (TypeError (''unsupported operand type(s) for +: '' @ quoted (type_name v)
                     @ '' and '' @ quoted ''str''))"

fun pg_triggers :: "row list \<Rightarrow> string \<Rightarrow> exn + string" where
  "pg_triggers [] ddl = Inr ddl"
| "pg_triggers (trigger # rest) ddl =
     thn (getitem trigger ''ddl'') (\<lambda>d.
     thn (concat_str d '';\<newline>\<newline>'') (\<lambda>piece. pg_triggers rest (ddl @ piece)))"

text \<open>
  The second attempt of the view and function branches, for a name \<open>schema.name\<close>;
  \<open>None\<close> when the name has no dot or the statement finds nothing.
\<close>

definition pg_qualified ::
  "env \<Rightarrow> dbval \<Rightarrow> (string \<Rightarrow> string \<Rightarrow> string) \<Rightarrow> dbval option conn_action" where
  "pg_qualified env object_name query =
     and_then (lift (has_dot object_name)) (\<lambda>dotted.
     if dotted then
       (case split_once CHR ''.'' (py_str object_name) of
          (schema, name) \<Rightarrow>
            and_then (pg_execute_query env (query name schema)) (\<lambda>info.
            if data info \<noteq> [] then
              and_then (lift (first_value (data info) ''ddl'')) (\<lambda>ddl. ret (Some ddl))
            else ret None))
     else ret None)"

primrec pg_get_ddl :: "nat \<Rightarrow> env \<Rightarrow> dbval \<Rightarrow> string \<Rightarrow> dbval conn_action" where
  "pg_get_ddl 0 env object_name object_type =
     raise (RecursionError ''maximum recursion depth exceeded'')"
| "pg_get_ddl (Suc depth) env object_name object_type =
     (let object_type = py_lower object_type in
      if object_type = ''table'' then
        and_then (create_tabledef_function env) (\<lambda>u.
        if object_name = DStr ''*'' then
          and_then (pg_execute_query env pg_tables_query) (\<lambda>tables_result.
            if data tables_result = [] then
              ret (DStr ''-- No tables found in the public schema'')
            else and_then (pg_each_table (pg_get_ddl depth env) (data tables_result) [])
                   (\<lambda>all_ddl. ret (DStr (py_strip all_ddl))))
        else pg_table_ddl env object_name)
      else if object_type = ''view'' then
        and_then (pg_execute_query env (pg_view_query (py_str object_name))) (\<lambda>view_info.
        if data view_info \<noteq> [] then lift (first_value (data view_info) ''ddl'')
        else
          and_then (pg_qualified env object_name pg_view_query_schema) (\<lambda>found.
            case found of
              Some ddl \<Rightarrow> ret ddl
            | None \<Rightarrow>
                ret (DStr (''-- View '' @ py_str object_name @ '' definition not found''))))
      else if object_type \<in> set [''function'', ''procedure''] then
        and_then (pg_execute_query env (pg_function_query (py_str object_name))) (\<lambda>func_info.
        if data func_info \<noteq> [] then lift (first_value (data func_info) ''ddl'')
        else
          and_then (pg_qualified env object_name pg_function_query_schema) (\<lambda>found.
            case found of
              Some ddl \<Rightarrow> ret ddl
            | None \<Rightarrow>
                ret (DStr (''-- Function/Procedure '' @ py_str object_name
                           @ '' definition not found''))))
      else if object_type = ''trigger'' then
        and_then (pg_execute_query env (pg_trigger_query (py_str object_name)))
          (\<lambda>trigger_info.
             if data trigger_info \<noteq> [] then
               and_then (lift (pg_triggers (data trigger_info) [])) (\<lambda>ddl. ret (DStr ddl))
             else ret (DStr (''-- Trigger '' @ py_str object_name @ '' definition not found'')))
      else if object_type = ''sequence'' then
        and_then (pg_execute_query env (pg_sequence_query (py_str object_name))) (\<lambda>seq_info.
          if data seq_info \<noteq> [] then lift (first_value (data seq_info) ''ddl'')
          else ret (DStr (''-- Sequence '' @ py_str object_name @ '' definition not found'')))
      else ret (DStr (''-- DDL generation for '' @ object_type @ '' is not supported yet'')))"

text \<open>\<open>connector.get_ddl\<close>, by the class of the connector.\<close>

definition get_ddl :: "nat \<Rightarrow> env \<Rightarrow> dbval \<Rightarrow> string \<Rightarrow> dbval conn_action" where
  "get_ddl depth env object_name object_type = (\<lambda>(c, w).
     case dialect c of
       ODBC \<Rightarrow> odbc_get_ddl depth env object_name object_type (c, w)
     | Postgres \<Rightarrow> pg_get_ddl depth env object_name object_type (c, w))"

section \<open>The cache decorator (app/cache/redis_cache.py)\<close>

subsection \<open>\<open>json.dumps(v, default=str)\<close> and \<open>json.loads\<close>\<close>

text \<open>
  A value JSON has no form for is written as its \<open>str()\<close>, so it is read back as a
  string.
\<close>

fun json_atom :: "dbval \<Rightarrow> json" where
  "json_atom DNull = JNull"
| "json_atom (DBool b) = JBool b"
| "json_atom (DInt i) = JNum i"
| "json_atom (DFloat r) = JReal r"
| "json_atom (DStr s) = JStr s"
| "json_atom (DObj cls s t m) = JStr s"

fun json_dumps :: "pyval \<Rightarrow> json" where
  "json_dumps (Atom a) = json_atom a"
| "json_dumps (PList xs) = JArr (map json_dumps xs)"
| "json_dumps (PDict kvs) = JObj (map (\<lambda>(k, v). (k, json_dumps v)) kvs)"

fun json_loads :: "json \<Rightarrow> pyval" where
  "json_loads JNull = Atom DNull"
| "json_loads (JBool b) = Atom (DBool b)"
| "json_loads (JNum i) = Atom (DInt i)"
| "json_loads (JReal r) = Atom (DFloat r)"
| "json_loads (JStr s) = Atom (DStr s)"
| "json_loads (JArr xs) = PList (map json_loads xs)"
| "json_loads (JObj kvs) = PDict (map (\<lambda>(k, v). (k, json_loads v)) kvs)"

text \<open>
  \<open>result['cached'] = b\<close>: an update of a dictionary, and a \<open>TypeError\<close> (here \<open>None\<close>)
  on anything else.
\<close>

fun set_cached :: "bool \<Rightarrow> pyval \<Rightarrow> pyval option" where
  "set_cached b (PDict d) = Some (PDict (AList.update ''cached'' (Atom (DBool b)) d))"
| "set_cached b v = None"

subsection \<open>The store\<close>

text \<open>\<open>GET key\<close>: the text of an entry that has not expired. \<open>SETEX key ttl text\<close>: the
  entry expires \<open>ttl\<close> seconds from now; the store refuses a \<open>ttl\<close> that is not positive.\<close>

definition live_entry :: "world \<Rightarrow> string \<Rightarrow> cached_text option" where
  "live_entry w key =
     (case map_of (store w) key of
        None \<Rightarrow> None
      | Some (text, expires) \<Rightarrow> if clock w < expires then Some text else None)"

definition redis_get :: "string \<Rightarrow> world \<Rightarrow> exn + cached_text option" where
  "redis_get key w =
     (if get_fails w then Inl (RedisError ''Error connecting to the store'')
      else Inr (live_entry w key))"

definition redis_setex :: "string \<Rightarrow> int \<Rightarrow> cached_text \<Rightarrow> (world, unit) action" where
  "redis_setex key ttl text = (\<lambda>w.
     if setex_fails w then (Inl (RedisError ''Error connecting to the store''), w)
     else if ttl \<le> 0 then (Inl (RedisError ''invalid expire time in setex''), w)
     else (Inr (), w\<lparr>store := AList.update key (text, clock w + ttl) (store w)\<rparr>))"

subsection \<open>\<open>redis_cache\<close>\<close>

text \<open>
  The key: \<open>kwargs\<close> is empty once \<open>cache_enabled\<close> and \<open>cache_ttl\<close> are popped, and
  \<open>str(sorted(kwargs.items()))\<close> is \<open>[]\<close>.
\<close>

definition cache_key :: "env \<Rightarrow> string \<Rightarrow> string list \<Rightarrow> string" where
  "cache_key env func_name args =
     ''db_api:'' @ func_name @ '':''
       @ md5_hexdigest env (func_name @ '':'' @ str_args env args @ '':'' @ ''[]'')"

text \<open>
  The first \<open>try\<close> block: \<open>Some result\<close> when the wrapper returns from the cache. A read
  that fails, an absent or empty text, a text that is not JSON and a document that is
  not a dictionary all fall through to the call.
\<close>

definition cached_lookup :: "string \<Rightarrow> world \<Rightarrow> pyval option" where
  "cached_lookup key w =
     (case redis_get key w of
        Inl e \<Rightarrow> None
      | Inr None \<Rightarrow> None
      | Inr (Some (Garbled s)) \<Rightarrow> None
      | Inr (Some (Json j)) \<Rightarrow> set_cached True (json_loads j))"

text \<open>
  The second \<open>try\<close> block: a result that is true is copied, marked \<open>cached = False\<close> and
  written; whatever raises on the way is dropped.
\<close>

definition cache_write :: "string \<Rightarrow> int \<Rightarrow> pyval \<Rightarrow> world \<Rightarrow> world" where
  "cache_write key ttl result w =
     (if py_truthy result then
        (case set_cached False result of
           None \<Rightarrow> w
         | Some cache_result \<Rightarrow> snd (redis_setex key ttl (Json (json_dumps cache_result)) w))
      else w)"

text \<open>
  The wrapper around \<open>func\<close>, called with the positional arguments \<open>args\<close>;
  \<open>cache_enabled\<close> defaults to \<open>False\<close> and \<open>cache_ttl\<close> to 3600 when the caller leaves
  them out.
\<close>

definition redis_cache ::
  "env \<Rightarrow> string \<Rightarrow> string list \<Rightarrow> (world, pyval) action \<Rightarrow> bool \<Rightarrow> int \<Rightarrow> (world, pyval) action" where
  "redis_cache env func_name args func cache_enabled cache_ttl = (\<lambda>w.
     if \<not> cache_enabled then func w
     else
       (case cached_lookup (cache_key env func_name args) w of
          Some result \<Rightarrow> (Inr result, w)
        | None \<Rightarrow>
            (case func w of
               (Inl e, w') \<Rightarrow> (Inl e, w')
             | (Inr result, w') \<Rightarrow>
                 (Inr result, cache_write (cache_key env func_name args) cache_ttl result w'))))"

section \<open>The services (app/services/db_service.py)\<close>

text \<open>The dictionary \<open>execute_query\<close> returns, as a value.\<close>

definition result_dict :: "query_result \<Rightarrow> pyval" where
  "result_dict r =
     PDict [(''columns'', PList (map (\<lambda>c. Atom (DStr c)) (columns r))),
            (''data'', PList (map (\<lambda>row. PDict (map (\<lambda>(k, v). (k, Atom v)) row)) (data r))),
            (''row_count'', Atom (DInt (row_count r))),
            (''affected_rows'', Atom (DInt (affected_rows r)))]"

text \<open>
  A connector is local to one call: the action runs on a new connector and the world,
  and only the world remains.
\<close>

definition with_connector ::
  "string \<Rightarrow> string \<Rightarrow> 'a conn_action \<Rightarrow> (world, 'a) action" where
  "with_connector conn_string db_type body = (\<lambda>w.
     case get_db_connector conn_string db_type of
       Inl e \<Rightarrow> (Inl e, w)
     | Inr connector \<Rightarrow> (case body (connector, w) of (r, (c, w')) \<Rightarrow> (r, w')))"

text \<open>The two dictionaries \<open>execute_query_with_cache\<close> returns.\<close>

definition success_dict :: "query_result \<Rightarrow> string \<Rightarrow> string \<Rightarrow> (string \<times> pyval) list" where
  "success_dict result query db_type =
     [(''status'', Atom (DStr ''success'')),
      (''result'', result_dict result),
      (''query'', Atom (DStr query)),
      (''db_type'', Atom (DStr db_type)),
      (''cached'', Atom (DBool False))]"

definition error_dict :: "exn \<Rightarrow> string \<Rightarrow> string \<Rightarrow> (string \<times> pyval) list" where
  "error_dict e query db_type =
     [(''status'', Atom (DStr ''error'')),
      (''error'', Atom (DStr (exn_str e))),
      (''query'', Atom (DStr query)),
      (''db_type'', Atom (DStr db_type)),
      (''cached'', Atom (DBool False))]"

text \<open>The function \<open>execute_query_with_cache\<close> as written, before it is decorated.\<close>

definition execute_query_plain :: "env \<Rightarrow> string \<Rightarrow> string \<Rightarrow> string \<Rightarrow> (world, pyval) action" where
  "execute_query_plain env conn_string db_type query =
     try_except
       (and_then
          (with_connector conn_string db_type
             (and_then (connect env) (\<lambda>ok.
              and_then (execute_query env query) (\<lambda>result.
              and_then disconnect (\<lambda>u. ret result)))))
          (\<lambda>result. ret (PDict (success_dict result query db_type))))
       (\<lambda>e. ret (PDict (error_dict e query db_type)))"

definition execute_query_with_cache ::
  "env \<Rightarrow> string \<Rightarrow> string \<Rightarrow> string \<Rightarrow> bool \<Rightarrow> int \<Rightarrow> (world, pyval) action" where
  "execute_query_with_cache env conn_string db_type query cache_enabled cache_ttl =
     redis_cache env ''execute_query_with_cache'' [conn_string, db_type, query]
       (execute_query_plain env conn_string db_type query) cache_enabled cache_ttl"

text \<open>The function \<open>get_ddl_with_cache\<close> as written, before it is decorated.\<close>

definition get_ddl_plain ::
  "env \<Rightarrow> string \<Rightarrow> string \<Rightarrow> string \<Rightarrow> string \<Rightarrow> (world, pyval) action" where
  "get_ddl_plain env conn_string db_type object_name object_type =
     try_except
       (and_then
          (with_connector conn_string db_type
             (and_then (connect env) (\<lambda>ok.
              and_then (get_ddl (frames env) env (DStr object_name) object_type) (\<lambda>ddl.
              and_then disconnect (\<lambda>u. ret ddl)))))
          (\<lambda>ddl.
             ret (PDict [(''status'', Atom (DStr ''success'')),
                         (''ddl'', Atom ddl),
                         (''object_name'', Atom (DStr object_name)),
                         (''object_type'', Atom (DStr object_type)),
                         (''db_type'', Atom (DStr db_type)),
                         (''cached'', Atom (DBool False))])))
       (\<lambda>e.
          ret (PDict [(''status'', Atom (DStr ''error'')),
                      (''error'', Atom (DStr (exn_str e))),
                      (''object_name'', Atom (DStr object_name)),
                      (''object_type'', Atom (DStr object_type)),
                      (''db_type'', Atom (DStr db_type)),
                      (''cached'', Atom (DBool False))]))"

definition get_ddl_with_cache ::
  "env \<Rightarrow> string \<Rightarrow> string \<Rightarrow> string \<Rightarrow> string \<Rightarrow> bool \<Rightarrow> int \<Rightarrow> (world, pyval) action" where
  "get_ddl_with_cache env conn_string db_type object_name object_type cache_enabled cache_ttl =
     redis_cache env ''get_ddl_with_cache'' [conn_string, db_type, object_name, object_type]
       (get_ddl_plain env conn_string db_type object_name object_type) cache_enabled cache_ttl"

section \<open>Notions the properties are stated with\<close>

text \<open>The driver grants the connection the connector asks for.\<close>

definition driver_accepts :: "env \<Rightarrow> connector \<Rightarrow> bool" where
  "driver_accepts env c =
     (case dialect c of
        ODBC \<Rightarrow> pyodbc_connect env (connection_string c) = None
      | Postgres \<Rightarrow>
          (case parse_connection_string env (connection_string c) of
             Inl e \<Rightarrow> False
           | Inr params \<Rightarrow> psycopg2_connect env params = None))"

text \<open>
  The database answers statement \<open>q\<close> with a result set of the columns \<open>cols\<close> and the
  rows \<open>rows\<close>.
\<close>

definition answers :: "env \<Rightarrow> string \<Rightarrow> string list \<Rightarrow> dbval list list \<Rightarrow> bool" where
  "answers env q cols rows =
     (case cursor_execute env q of
        Raises msg \<Rightarrow> False
      | Returns cur \<Rightarrow> description cur = Some cols \<and> fetchall cur = rows)"

text \<open>Two worlds with the same cache store, clock and store failures.\<close>

definition same_cache :: "world \<Rightarrow> world \<Rightarrow> bool" where
  "same_cache w w' =
     (store w' = store w \<and> clock w' = clock w \<and> get_fails w' = get_fails w \<and>
      setex_fails w' = setex_fails w)"

text \<open>
  A value as it comes back from the cache: every object of a class JSON has no form for
  replaced by its \<open>str()\<close>. \<open>json_native\<close> holds of the values without such an object
  (\<open>None\<close>, \<open>bool\<close>, \<open>int\<close>, \<open>float\<close> and \<open>str\<close>, and the lists and dictionaries of
  these), which come back as they were.
\<close>

fun str_atom :: "dbval \<Rightarrow> dbval" where
  "str_atom (DObj cls s t m) = DStr s"
| "str_atom a = a"

fun as_json :: "pyval \<Rightarrow> pyval" where
  "as_json (Atom a) = Atom (str_atom a)"
| "as_json (PList xs) = PList (map as_json xs)"
| "as_json (PDict kvs) = PDict (map (\<lambda>(k, v). (k, as_json v)) kvs)"


section \<open>Scenarios\<close>

text \<open>
  A new world with a working, empty store; the same with the store down; and a world in
  which a connector already holds connection 0.
\<close>

definition quiet_world :: world where
  "quiet_world = \<lparr>next_handle = 0, open_handles = [], calls = [], store = [], clock = 0,
                   get_fails = False, setex_fails = False\<rparr>"

definition down_world :: world where
  "down_world = \<lparr>next_handle = 0, open_handles = [], calls = [], store = [], clock = 0,
                  get_fails = True, setex_fails = True\<rparr>"

definition held_connector :: connector where
  "held_connector = \<lparr>dialect = ODBC, connection_string = ''DSN=fabric'', connection = Some 0\<rparr>"

definition held_world :: world where
  "held_world = \<lparr>next_handle = 1, open_handles = [0], calls = [Connected 0], store = [],
                  clock = 0, get_fails = False, setex_fails = False\<rparr>"

text \<open>
  An environment whose drivers grant every connection and whose database answers by
  \<open>db\<close>. The cache key is built from stand-ins for MD5 and for the \<open>str()\<close> of a tuple;
  no property depends on them.
\<close>

definition scenario :: "(string \<Rightarrow> outcome) \<Rightarrow> env" where
  "scenario db = \<lparr>pyodbc_connect = (\<lambda>s. None), psycopg2_connect = (\<lambda>p. None),
                  uri_match = (\<lambda>s. None), cursor_execute = db,
                  md5_hexdigest = (\<lambda>s. s), str_args = concat, frames = 1000\<rparr>"

text \<open>A statement answered with a result set; its \<open>rowcount\<close> is \<open>-1\<close>.\<close>

definition result_set :: "string list \<Rightarrow> dbval list list \<Rightarrow> outcome" where
  "result_set cols rows = Returns \<lparr>description = Some cols, fetchall = rows, rowcount = - 1\<rparr>"

text \<open>An update of three rows, a statement the database rejects, and a \<open>Decimal\<close> column.\<close>

definition update_env :: env where
  "update_env = scenario (\<lambda>q. Returns \<lparr>description = None, fetchall = [], rowcount = 3\<rparr>)"

definition failing_env :: env where
  "failing_env = scenario (\<lambda>q. Raises ''Invalid object name'')"







text \<open>
  A database with the tables \<open>customers\<close> and \<open>orders\<close>, as the catalog statements of the
  ODBC connector see it: \<open>orders\<close> has the identity column \<open>id\<close>, the nullable column
  \<open>total\<close> of type \<open>numeric(10, 2)\<close> and the primary key \<open>PK_orders\<close> on \<open>id\<close>;
  \<open>customers\<close> has one column \<open>name\<close> of type \<open>nvarchar(max)\<close> and no key.
\<close>

definition column_fields :: "string list" where
  "column_fields = [''column_name'', ''data_type'', ''max_length'', ''precision'', ''scale'',
                    ''is_nullable'', ''is_identity'', ''column_id'']"

definition fk_fields :: "string list" where
  "fk_fields = [''fk_name'', ''parent_table'', ''parent_column'', ''referenced_table'',
                ''referenced_column'']"

definition shop_db :: "string \<Rightarrow> outcome" where
  "shop_db q =
     (if q = odbc_tables_query then
        result_set [''name''] [[DStr ''customers''], [DStr ''orders'']]
      else if q = odbc_columns_query ''orders'' then
        result_set column_fields
          [[DStr ''id'', DStr ''int'', DInt 4, DInt 10, DInt 0, DBool False, DBool True, DInt 1],
           [DStr ''total'', DStr ''numeric'', DInt 9, DInt 10, DInt 2, DBool True, DBool False,
            DInt 2]]
      else if q = odbc_pk_query ''orders'' then
        result_set [''index_name'', ''column_name''] [[DStr ''PK_orders'', DStr ''id'']]
      else if q = odbc_columns_query ''customers'' then
        result_set column_fields
          [[DStr ''name'', DStr ''nvarchar'', DInt (- 1), DInt 0, DInt 0, DBool False, DBool False,
            DInt 1]]
      else if q = odbc_pk_query ''customers'' then
        result_set [''index_name'', ''column_name''] []
      else if q = odbc_fk_query ''orders'' \<or> q = odbc_fk_query ''customers'' then
        result_set fk_fields []
      else Raises ''Invalid object name'')"

definition shop_env :: env where
  "shop_env = scenario shop_db"


text \<open>
  A PostgreSQL connector that holds connection 0, and a database that knows the table
  \<open>orders\<close> of the schema \<open>public\<close> under its lowercase names only and rejects every statement
  but the four questions about \<open>Orders\<close> and the DDL statement for \<open>orders\<close>.
\<close>

definition pg_held_connector :: connector where
  "pg_held_connector =
     \<lparr>dialect = Postgres, connection_string = ''dbname=shop'', connection = Some 0\<rparr>"

definition pg_shop_db :: "string \<Rightarrow> outcome" where
  "pg_shop_db q =
     (if q = pg_exists_query 20 ''Orders'' then result_set [''exists''] [[DBool False]]
      else if q = pg_exists_query 24 ''orders'' then result_set [''exists''] [[DBool True]]
      else if q = pg_exists_query 28 ''public.Orders'' then result_set [''exists''] [[DBool False]]
      else if q = pg_exists_query 32 ''public.orders'' then result_set [''exists''] [[DBool True]]
      else if q = pg_tabledef_query 20 ''orders'' then
        result_set [''ddl''] [[DStr ''CREATE TABLE public.orders (id integer NOT NULL);'']]
      else Raises ''permission denied'')"

definition pg_shop_env :: env where
  "pg_shop_env = scenario pg_shop_db"

chapter \<open>Properties\<close>

section \<open>The codec round trip\<close>

declare bytes_decode.simps [simp del]

lemma unat_byte: "n < 256 \<Longrightarrow> unat (of_nat n :: byte) = n"
  by (simp add: unat_of_nat)

lemma unat_lt_256: "unat (b :: byte) < 256"
  using unsigned_less [of b, where 'a = nat] by simp

lemma byte_of_unat: "n = unat b \<Longrightarrow> (of_nat n :: byte) = b"
  by simp

lemma unat_b2a:
  "i < 64 \<Longrightarrow> unat (b2a i) =
     (if i < 26 then 65 + i else if i < 52 then 71 + i
      else if i < 62 then i - 4 else if i = 62 then 43 else 47)"
  unfolding b2a_def by (rule unat_byte) auto

lemma a2b_b2a: "i < 64 \<Longrightarrow> a2b (b2a i) = Some i"
  by (auto simp: a2b_def unat_b2a Let_def)

lemma b2a_not_pad: "i < 64 \<Longrightarrow> b2a i \<noteq> 61"
proof
  assume i: "i < 64" and "b2a i = 61"
  then have "unat (b2a i) = unat (61 :: byte)" by simp
  with i show False by (auto simp: unat_b2a split: if_splits)
qed

lemma b2a_ascii: "i < 64 \<Longrightarrow> unat (b2a i) < 128"
  by (auto simp: unat_b2a)

lemma a2b_base64_sym:
  "i < 64 \<Longrightarrow>
   a2b_base64 q l p out (b2a i # cs) =
     (if q = 0 then a2b_base64 1 i 0 out cs
      else if q = 1 then a2b_base64 2 (i mod 16) 0 (out @ [of_nat (l * 4 + i div 16)]) cs
      else if q = 2 then a2b_base64 3 (i mod 4) 0 (out @ [of_nat (l * 16 + i div 4)]) cs
      else a2b_base64 0 0 0 (out @ [of_nat (l * 64 + i)]) cs)"
  by (simp add: a2b_b2a b2a_not_pad)

lemma a2b_base64_pad2: "a2b_base64 2 l 0 out (61 # 61 # cs) = Some out"
  by simp

lemma a2b_base64_pad1: "a2b_base64 3 l 0 out (61 # cs) = Some out"
  by simp

declare a2b_base64.simps(2) [simp del]

lemma sextets:
  fixes x y z :: nat
  assumes "x < 256" "y < 256" "z < 256"
  shows "x div 4 < 64" "x mod 4 * 16 + y div 16 < 64" "y mod 16 * 4 + z div 64 < 64"
    "z mod 64 < 64" "x mod 4 * 16 < 64" "y mod 16 * 4 < 64"
  using assms by arith+

lemma div_small: "(d::nat) < n \<Longrightarrow> (q * n + d) div n = q" "(d::nat) < n \<Longrightarrow> (q * n + d) mod n = d"
  by simp_all

lemma regroup:
  fixes x y z :: nat
  assumes "x < 256" "y < 256" "z < 256"
  shows "x div 4 * 4 + (x mod 4 * 16 + y div 16) div 16 = x"
    "(x mod 4 * 16 + y div 16) mod 16 * 16 + (y mod 16 * 4 + z div 64) div 4 = y"
    "(y mod 16 * 4 + z div 64) mod 4 * 64 + z mod 64 = z"
    "x div 4 * 4 + (x mod 4 * 16) div 16 = x"
    "(x mod 4 * 16 + y div 16) mod 16 * 16 + (y mod 16 * 4) div 4 = y"
proof -
  have y: "y div 16 < 16" and z: "z div 64 < 4"
    using assms by simp_all
  show "x div 4 * 4 + (x mod 4 * 16 + y div 16) div 16 = x"
    by (simp only: div_small(1) [OF y] div_mult_mod_eq)
  show "(x mod 4 * 16 + y div 16) mod 16 * 16 + (y mod 16 * 4 + z div 64) div 4 = y"
    by (simp only: div_small(2) [OF y] div_small(1) [OF z] div_mult_mod_eq)
  show "(y mod 16 * 4 + z div 64) mod 4 * 64 + z mod 64 = z"
    by (simp only: div_small(2) [OF z] div_mult_mod_eq)
  show "x div 4 * 4 + (x mod 4 * 16) div 16 = x"
    by simp
  show "(x mod 4 * 16 + y div 16) mod 16 * 16 + (y mod 16 * 4) div 4 = y"
    by (simp only: div_small(2) [OF y]) simp
qed

lemma quad3:
  assumes "i0 < 64" "i1 < 64" "i2 < 64" "i3 < 64"
    and "i0 * 4 + i1 div 16 = unat a" "i1 mod 16 * 16 + i2 div 4 = unat b"
    and "i2 mod 4 * 64 + i3 = unat c"
  shows "a2b_base64 0 l p out (b2a i0 # b2a i1 # b2a i2 # b2a i3 # cs) =
         a2b_base64 0 0 0 (out @ [a, b, c]) cs"
proof -
  have "a2b_base64 0 l p out (b2a i0 # b2a i1 # b2a i2 # b2a i3 # cs) =
        a2b_base64 0 0 0 (out @ [of_nat (i0 * 4 + i1 div 16)]
           @ [of_nat (i1 mod 16 * 16 + i2 div 4)] @ [of_nat (i2 mod 4 * 64 + i3)]) cs"
    by (simp add: a2b_base64_sym assms(1-4) del: of_nat_add of_nat_mult)
  then show ?thesis
    by (simp only: assms(5-7) byte_of_unat [OF refl] append_Cons append_Nil append_assoc)
qed

lemma quad2:
  assumes "i0 < 64" "i1 < 64" "i2 < 64"
    and "i0 * 4 + i1 div 16 = unat a" "i1 mod 16 * 16 + i2 div 4 = unat b"
  shows "a2b_base64 0 l p out [b2a i0, b2a i1, b2a i2, 61] = Some (out @ [a, b])"
proof -
  have "a2b_base64 0 l p out [b2a i0, b2a i1, b2a i2, 61] =
        Some (out @ [of_nat (i0 * 4 + i1 div 16)] @ [of_nat (i1 mod 16 * 16 + i2 div 4)])"
    by (simp add: a2b_base64_sym assms(1-3) a2b_base64_pad1 del: of_nat_add of_nat_mult)
  then show ?thesis
    by (simp only: assms(4-5) byte_of_unat [OF refl] append_Cons append_Nil append_assoc)
qed

lemma quad1:
  assumes "i0 < 64" "i1 < 64" and "i0 * 4 + i1 div 16 = unat a"
  shows "a2b_base64 0 l p out [b2a i0, b2a i1, 61, 61] = Some (out @ [a])"
proof -
  have "a2b_base64 0 l p out [b2a i0, b2a i1, 61, 61] =
        Some (out @ [of_nat (i0 * 4 + i1 div 16)])"
    by (simp add: a2b_base64_sym assms(1-2) a2b_base64_pad2 del: of_nat_add of_nat_mult)
  then show ?thesis
    by (simp only: assms(3) byte_of_unat [OF refl])
qed

lemma b64_round_trip_loop: "a2b_base64 0 l p out (b64encode bs) = Some (out @ bs)"
proof (induction bs arbitrary: l p out rule: b64encode.induct)
  case (1 a b c r)
  note B = unat_lt_256 [of a] unat_lt_256 [of b] unat_lt_256 [of c]
  note S = sextets [OF B]
  note R = regroup [OF B]
  have "a2b_base64 0 l p out (b64encode (a # b # c # r)) =
        a2b_base64 0 0 0 (out @ [a, b, c]) (b64encode r)"
    by (simp only: b64encode.simps append_Cons append_Nil)
       (rule quad3 [OF S(1) S(2) S(3) S(4) R(1) R(2) R(3)])
  also have "\<dots> = Some ((out @ [a, b, c]) @ r)"
    by (rule "1.IH")
  finally show ?case by simp
next
  case (2 a b)
  note B = unat_lt_256 [of a] unat_lt_256 [of b] unat_lt_256 [of b]
  note S = sextets [OF B]
  note R = regroup [OF B]
  show ?case
    by (simp only: b64encode.simps) (rule quad2 [OF S(1) S(2) S(6) R(1) R(5)])
next
  case (3 a)
  note B = unat_lt_256 [of a] unat_lt_256 [of a] unat_lt_256 [of a]
  note S = sextets [OF B]
  note R = regroup [OF B]
  show ?case
    by (simp only: b64encode.simps) (rule quad1 [OF S(1) S(5) R(4)])
next
  case 4
  show ?case by simp
qed

lemma b64decode_b64encode: "b64decode (b64encode bs) = Some bs"
  using b64_round_trip_loop [of 0 0 "[]" bs] by (simp add: b64decode_def)

lemma b64encode_ascii: "b \<in> set (b64encode bs) \<Longrightarrow> unat b < 128"
proof (induction bs rule: b64encode.induct)
  case (1 a b' c r)
  note B = unat_lt_256 [of a] unat_lt_256 [of b'] unat_lt_256 [of c]
  note S = sextets [OF B]
  from 1 show ?case by (auto simp: b2a_ascii S)
next
  case (2 a b')
  note B = unat_lt_256 [of a] unat_lt_256 [of b'] unat_lt_256 [of b']
  note S = sextets [OF B]
  from 2 show ?case by (auto simp: b2a_ascii S)
next
  case (3 a)
  note B = unat_lt_256 [of a] unat_lt_256 [of a] unat_lt_256 [of a]
  note S = sextets [OF B]
  from 3 show ?case by (auto simp: b2a_ascii S)
next
  case 4
  then show ?case by simp
qed


lemma bytes_decode_Nil [simp]: "bytes_decode [] = Some []"
  by (simp add: bytes_decode.simps)

lemma bytes_decode_ascii:
  "\<forall>b \<in> set bs. unat b < 128 \<Longrightarrow> bytes_decode bs = Some (map unat bs)"
proof (induction bs)
  case Nil
  show ?case by simp
next
  case (Cons b bs)
  then have "utf8_next (b # bs) = Some (unat b, 1)"
    by (simp add: utf8_next_def)
  with Cons show ?case
    by (subst bytes_decode.simps) simp
qed

lemma str_encode_ascii:
  "\<forall>b \<in> set bs. unat b < 128 \<Longrightarrow> str_encode (map unat bs) = Some bs"
  by (induction bs) (simp_all add: utf8_char_def)

lemma b64decode_str_ascii:
  "\<forall>b \<in> set bs. unat b < 128 \<Longrightarrow> b64decode_str (map unat bs) = b64decode bs"
  by (simp add: b64decode_str_def list_all_iff comp_def)

lemma utf8_char_scalar: "scalar c \<Longrightarrow> \<exists>e. utf8_char c = Some e"
  by (auto simp: scalar_def utf8_char_def)

lemma str_encode_total: "unicode_text s \<Longrightarrow> \<exists>bs. str_encode s = Some bs"
proof (induction s)
  case Nil
  show ?case by simp
next
  case (Cons c s)
  then obtain e bs where "utf8_char c = Some e" "str_encode s = Some bs"
    using utf8_char_scalar [of c] by (auto simp: unicode_text_def)
  then show ?case by simp
qed

lemma split3: "(c::nat) div 4096 * 4096 + c div 64 mod 64 * 64 + c mod 64 = c"
proof -
  define q where "q = c div 64"
  define h where "h = q div 64"
  define m where "m = q mod 64"
  define l where "l = c mod 64"
  have e: "c div 4096 = h"
    unfolding h_def q_def by (simp add: div_mult2_eq [symmetric])
  have q: "h * 64 + m = q"
    unfolding h_def m_def by (rule div_mult_mod_eq)
  have c: "q * 64 + l = c"
    unfolding q_def l_def by (rule div_mult_mod_eq)
  have "h * 4096 + m * 64 + l = (h * 64 + m) * 64 + l"
    by simp
  also have "\<dots> = c"
    by (simp only: q c)
  finally show ?thesis
    by (simp only: e m_def [symmetric] q_def [symmetric] l_def [symmetric])
qed

lemma split4:
  "(c::nat) div 262144 * 262144 + c div 4096 mod 64 * 4096 + c div 64 mod 64 * 64 + c mod 64 = c"
proof -
  define q where "q = c div 4096"
  define h where "h = q div 64"
  define m where "m = q mod 64"
  define r where "r = c div 64 mod 64 * 64 + c mod 64"
  have e: "c div 262144 = h"
    unfolding h_def q_def by (simp add: div_mult2_eq [symmetric])
  have q: "h * 64 + m = q"
    unfolding h_def m_def by (rule div_mult_mod_eq)
  have c: "q * 4096 + r = c"
    unfolding q_def r_def using split3 [of c] by simp
  have "h * 262144 + m * 4096 + r = (h * 64 + m) * 4096 + r"
    by simp
  also have "\<dots> = c"
    by (simp only: q c)
  finally have "c div 262144 * 262144 + c div 4096 mod 64 * 4096 + r = c"
    by (simp only: e m_def [symmetric] q_def [symmetric])
  then show ?thesis
    by (simp add: r_def)
qed

lemma ranges:
  fixes c :: nat
  shows "c < 0x800 \<Longrightarrow> c div 64 < 32" "0x80 \<le> c \<Longrightarrow> 2 \<le> c div 64"
    "c < 0x10000 \<Longrightarrow> c div 4096 < 16" "c < 0x110000 \<Longrightarrow> c div 262144 < 5"
  by simp_all


lemma utf8_next_1: "unat b0 < 0x80 \<Longrightarrow> utf8_next (b0 # r) = Some (unat b0, 1)"
  by (simp add: utf8_next_def)

lemma utf8_next_2:
  assumes "unat b0 = 0xC0 + h" "2 \<le> h" "h < 32" "unat b1 = 0x80 + l" "l < 64"
  shows "utf8_next (b0 # b1 # r) = Some (h * 64 + l, 2)"
  using assms by (simp add: utf8_next_def cont_def)

lemma utf8_next_3:
  assumes "unat b0 = 0xE0 + h" "h < 16" "unat b1 = 0x80 + m" "m < 64"
    and "unat b2 = 0x80 + l" "l < 64"
    and "0x800 \<le> h * 4096 + m * 64 + l"
    and "\<not> (0xD800 \<le> h * 4096 + m * 64 + l \<and> h * 4096 + m * 64 + l < 0xE000)"
  shows "utf8_next (b0 # b1 # b2 # r) = Some (h * 4096 + m * 64 + l, 3)"
  using assms by (simp add: utf8_next_def cont_def)

lemma utf8_next_4:
  assumes "unat b0 = 0xF0 + h" "h < 5" "unat b1 = 0x80 + m" "m < 64"
    and "unat b2 = 0x80 + l" "l < 64" "unat b3 = 0x80 + k" "k < 64"
    and "0x10000 \<le> h * 262144 + m * 4096 + l * 64 + k"
    and "h * 262144 + m * 4096 + l * 64 + k < 0x110000"
  shows "utf8_next (b0 # b1 # b2 # b3 # r) = Some (h * 262144 + m * 4096 + l * 64 + k, 4)"
  using assms by (simp add: utf8_next_def cont_def)

lemma utf8_char_next:
  assumes "utf8_char c = Some e"
  shows "utf8_next (e @ r) = Some (c, length e)"
proof -
  consider (one) "c < 0x80"
    | (two) "0x80 \<le> c" "c < 0x800"
    | (three) "0x800 \<le> c" "c < 0x10000" "\<not> (0xD800 \<le> c \<and> c < 0xE000)"
    | (four) "0x10000 \<le> c" "c < 0x110000"
    | (bad) "(0xD800 \<le> c \<and> c < 0xE000) \<or> 0x110000 \<le> c"
    by linarith
  then show ?thesis
  proof cases
    case one
    then have e: "e = [of_nat c]"
      using assms by (simp add: utf8_char_def)
    have "unat (of_nat c :: byte) = c"
      using one by (intro unat_byte) simp
    then show ?thesis
      using one utf8_next_1 [of "of_nat c" r] by (simp add: e)
  next
    case two
    then have e: "e = [of_nat (0xC0 + c div 64), of_nat (0x80 + c mod 64)]"
      using assms by (simp add: utf8_char_def del: of_nat_add)
    have u0: "unat (of_nat (0xC0 + c div 64) :: byte) = 0xC0 + c div 64"
      using ranges(1) [OF two(2)] by (intro unat_byte) simp
    have u1: "unat (of_nat (0x80 + c mod 64) :: byte) = 0x80 + c mod 64"
      by (intro unat_byte) simp
    have "utf8_next (of_nat (0xC0 + c div 64) # of_nat (0x80 + c mod 64) # r)
          = Some (c div 64 * 64 + c mod 64, 2)"
      by (rule utf8_next_2 [OF u0 ranges(2) [OF two(1)] ranges(1) [OF two(2)] u1]) simp
    then show ?thesis
      by (simp only: e div_mult_mod_eq append_Cons append_Nil) simp
  next
    case three
    then have e: "e = [of_nat (0xE0 + c div 4096), of_nat (0x80 + c div 64 mod 64),
                       of_nat (0x80 + c mod 64)]"
      using assms by (auto simp add: utf8_char_def simp del: of_nat_add)
    have u0: "unat (of_nat (0xE0 + c div 4096) :: byte) = 0xE0 + c div 4096"
      using ranges(3) [OF three(2)] by (intro unat_byte) simp
    have u1: "unat (of_nat (0x80 + c div 64 mod 64) :: byte) = 0x80 + c div 64 mod 64"
      by (intro unat_byte) simp
    have u2: "unat (of_nat (0x80 + c mod 64) :: byte) = 0x80 + c mod 64"
      by (intro unat_byte) simp
    have c3: "0x800 \<le> c div 4096 * 4096 + c div 64 mod 64 * 64 + c mod 64"
      "\<not> (0xD800 \<le> c div 4096 * 4096 + c div 64 mod 64 * 64 + c mod 64
          \<and> c div 4096 * 4096 + c div 64 mod 64 * 64 + c mod 64 < 0xE000)"
      unfolding split3 using three by simp_all
    have "utf8_next (of_nat (0xE0 + c div 4096) # of_nat (0x80 + c div 64 mod 64)
                     # of_nat (0x80 + c mod 64) # r)
          = Some (c div 4096 * 4096 + c div 64 mod 64 * 64 + c mod 64, 3)"
      by (rule utf8_next_3 [OF u0 ranges(3) [OF three(2)] u1 _ u2 _ c3]) simp_all
    then show ?thesis
      by (simp only: e split3 append_Cons append_Nil) simp
  next
    case four
    then have e: "e = [of_nat (0xF0 + c div 262144), of_nat (0x80 + c div 4096 mod 64),
                       of_nat (0x80 + c div 64 mod 64), of_nat (0x80 + c mod 64)]"
      using assms by (simp add: utf8_char_def del: of_nat_add)
    have u0: "unat (of_nat (0xF0 + c div 262144) :: byte) = 0xF0 + c div 262144"
      using ranges(4) [OF four(2)] by (intro unat_byte) simp
    have u1: "unat (of_nat (0x80 + c div 4096 mod 64) :: byte) = 0x80 + c div 4096 mod 64"
      by (intro unat_byte) simp
    have u2: "unat (of_nat (0x80 + c div 64 mod 64) :: byte) = 0x80 + c div 64 mod 64"
      by (intro unat_byte) simp
    have u3: "unat (of_nat (0x80 + c mod 64) :: byte) = 0x80 + c mod 64"
      by (intro unat_byte) simp
    have c4: "0x10000 \<le> c div 262144 * 262144 + c div 4096 mod 64 * 4096
                         + c div 64 mod 64 * 64 + c mod 64"
      "c div 262144 * 262144 + c div 4096 mod 64 * 4096 + c div 64 mod 64 * 64 + c mod 64
         < 0x110000"
      unfolding split4 using four by simp_all
    have "utf8_next (of_nat (0xF0 + c div 262144) # of_nat (0x80 + c div 4096 mod 64)
                     # of_nat (0x80 + c div 64 mod 64) # of_nat (0x80 + c mod 64) # r)
          = Some (c div 262144 * 262144 + c div 4096 mod 64 * 4096 + c div 64 mod 64 * 64
                  + c mod 64, 4)"
      by (rule utf8_next_4 [OF u0 ranges(4) [OF four(2)] u1 _ u2 _ u3 _ c4]) simp_all
    then show ?thesis
      by (simp only: e split4 append_Cons append_Nil) simp
  next
    case bad
    then show ?thesis
      using assms by (auto simp: utf8_char_def)
  qed
qed

lemma utf8_char_nonempty: "utf8_char c = Some e \<Longrightarrow> e \<noteq> []"
  by (auto simp: utf8_char_def split: if_splits)

lemma decode_encode: "str_encode s = Some bs \<Longrightarrow> bytes_decode bs = Some s"
proof (induction s arbitrary: bs)
  case Nil
  then show ?case by simp
next
  case (Cons c s)
  then obtain e r where e: "utf8_char c = Some e" and r: "str_encode s = Some r"
    and bs: "bs = e @ r"
    by (auto split: option.splits)
  have "bytes_decode (e @ r) = Some (c # s)"
    using utf8_char_nonempty [OF e] utf8_char_next [OF e, of r] Cons.IH [OF r]
    by (subst bytes_decode.simps) simp
  then show ?case by (simp add: bs)
qed


lemma sha256_length: "length (sha256 m) = 32"
  by (simp add: sha256_def be32_def split: prod.splits)

lemma ascii_text_bytes:
  assumes "\<forall>b \<in> set bs. unat b < 128"
  shows "bytes_decode bs = Some (map unat bs)" "str_encode (map unat bs) = Some bs"
    "b64decode_str (map unat bs) = b64decode bs"
  using assms by (simp_all add: bytes_decode_ascii str_encode_ascii b64decode_str_ascii)

text \<open>
  Claim C1. For every descriptor text \<open>D\<close> of Unicode scalar values (printable characters
  are among them) and every such secret, \<open>simple_encrypt\<close> returns the token
  base64(signature followed by base64(D)), where the signature is the 32-byte SHA-256
  digest of \<open>D + HASH_SECRET\<close>, and \<open>simple_decrypt\<close> of that token returns \<open>D\<close>.
\<close>

theorem codec_round_trip:
  assumes "unicode_text D" and "unicode_text HASH_SECRET"
  shows "\<exists>keyed raw.
           str_encode (D @ HASH_SECRET) = Some keyed \<and> str_encode D = Some raw \<and>
           length (sha256 keyed) = 32 \<and>
           simple_encrypt HASH_SECRET D
             = Some (map unat (b64encode (sha256 keyed @ b64encode raw))) \<and>
           simple_decrypt HASH_SECRET (map unat (b64encode (sha256 keyed @ b64encode raw)))
             = Some D"
proof -
  from assms have "unicode_text (D @ HASH_SECRET)"
    by (simp add: unicode_text_def)
  then obtain keyed where keyed: "str_encode (D @ HASH_SECRET) = Some keyed"
    using str_encode_total by blast
  obtain raw where raw: "str_encode D = Some raw"
    using str_encode_total [OF assms(1)] by blast
  define inner where "inner = b64encode raw"
  define outer where "outer = b64encode (sha256 keyed @ inner)"
  have inner_ascii: "\<forall>b \<in> set inner. unat b < 128"
    unfolding inner_def by (blast intro: b64encode_ascii)
  have outer_ascii: "\<forall>b \<in> set outer. unat b < 128"
    unfolding outer_def by (blast intro: b64encode_ascii)
  note I = ascii_text_bytes [OF inner_ascii]
  note O = ascii_text_bytes [OF outer_ascii]
  have enc: "simple_encrypt HASH_SECRET D = Some (map unat outer)"
    by (simp add: simple_encrypt_def keyed raw inner_def [symmetric] I
        outer_def [symmetric] O)
  have outer_dec: "b64decode outer = Some (sha256 keyed @ inner)"
    unfolding outer_def by (rule b64decode_b64encode)
  have inner_dec: "b64decode inner = Some raw"
    unfolding inner_def by (rule b64decode_b64encode)
  have dec: "simple_decrypt HASH_SECRET (map unat outer) = Some D"
    by (simp add: simple_decrypt_def O outer_dec sha256_length I inner_dec
        decode_encode [OF raw] keyed)
  show ?thesis
    using keyed raw enc dec sha256_length [of keyed]
    by (simp add: outer_def inner_def)
qed

theorem codec_round_trip_witness:
  "\<exists>token. simple_encrypt (map of_char ''default_secret_key_change_me'')
              [0x68, 0xE9, 0x20AC, 0x1F600] = Some token \<and>
           simple_decrypt (map of_char ''default_secret_key_change_me'') token
             = Some [0x68, 0xE9, 0x20AC, 0x1F600]"
proof -
  have d: "unicode_text [0x68, 0xE9, 0x20AC, 0x1F600]"
    by (simp add: unicode_text_def scalar_def)
  have s: "unicode_text (map of_char ''default_secret_key_change_me'')"
    by (simp add: unicode_text_def scalar_def)
  from codec_round_trip [OF d s] show ?thesis
    by blast
qed

section \<open>What \<open>execute_query\<close> reports\<close>

lemma ensure_connected_held:
  "connection c = Some h \<Longrightarrow> ensure_connected env (c, w) = (Inr h, (c, w))"
  by (simp add: ensure_connected_def)

lemma execute_query_held:
  assumes "connection c = Some h" and "cursor_execute env query = Returns cur"
  shows "execute_query env query (c, w) =
           (Inr (case dialect c of ODBC \<Rightarrow> odbc_result cur | Postgres \<Rightarrow> pg_result cur),
            (c, w\<lparr>calls := calls w @ [Ran h query]\<rparr>))"
  using assms
  by (simp add: execute_query_def odbc_execute_query_def pg_execute_query_def and_then_def
      ensure_connected_held run_query_def ret_def split: dialect.splits)

text \<open>
  Claim C4. On a connector that holds a connection, a statement the driver executes gives
  a result. When the driver reports a result set, the columns and rows are those of the
  result set, \<open>row_count\<close> is the number of rows and \<open>affected_rows\<close> is 0. When it
  reports none, \<open>affected_rows\<close> is the driver's \<open>rowcount\<close>; \<open>row_count\<close> is 0 on the
  PostgreSQL connector and the driver's \<open>rowcount\<close> as well on the ODBC connector.
\<close>

theorem execute_query_counters:
  assumes "connection c = Some h" and "cursor_execute env query = Returns cur"
  shows "\<exists>r s. execute_query env query (c, w) = (Inr r, s) \<and>
           (has_result_set cur \<longrightarrow>
              columns r = column_names cur \<and>
              data r = map (\<lambda>row. py_dict (zip (column_names cur) row)) (fetchall cur) \<and>
              row_count r = int (length (fetchall cur)) \<and> affected_rows r = 0) \<and>
           (\<not> has_result_set cur \<longrightarrow>
              affected_rows r = rowcount cur \<and>
              row_count r = (case dialect c of Postgres \<Rightarrow> 0 | ODBC \<Rightarrow> rowcount cur))"
  unfolding execute_query_held [OF assms]
  by (cases "dialect c") (simp_all add: odbc_result_def pg_result_def Let_def)

theorem execute_query_counters_witness:
  "\<exists>r s. execute_query update_env ''UPDATE orders SET total = 0''
            (\<lparr>dialect = Postgres, connection_string = ''dbname=shop'', connection = Some 0\<rparr>,
             quiet_world) = (Inr r, s) \<and> row_count r = 0 \<and> affected_rows r = 3"
proof -
  have h: "connection \<lparr>dialect = Postgres, connection_string = ''dbname=shop'',
                        connection = Some 0\<rparr> = Some 0"
    by simp
  have e: "cursor_execute update_env ''UPDATE orders SET total = 0''
             = Returns \<lparr>description = None, fetchall = [], rowcount = 3\<rparr>"
    by (simp add: update_env_def scenario_def)
  from execute_query_counters [OF h e, of quiet_world] show ?thesis
    by (auto simp: has_result_set_def)
qed

text \<open>
  The claim as stated fails on the ODBC connector: an update of three rows is reported
  with \<open>row_count = 3\<close>.
\<close>

theorem odbc_row_count_counterexample:
  "fst (execute_query update_env ''UPDATE orders SET total = 0''
          (new_connector ODBC ''DSN=fabric'', quiet_world))
     = Inr \<lparr>columns = [], data = [], row_count = 3, affected_rows = 3\<rparr>"
  by (simp add: execute_query_def odbc_execute_query_def and_then_def ensure_connected_def
      connect_def odbc_connect_def establish_def run_query_def ret_def odbc_result_def
      has_result_set_def column_names_def new_connector_def update_env_def scenario_def quiet_world_def)

section \<open>Connecting twice\<close>


text \<open>
  Claim C5. \<open>connect()\<close> has no guard: whenever the driver grants the connection, the
  call asks the driver for a connection, which it hands out under a fresh handle, and
  stores that handle in the connector in place of whatever the connector held before.
\<close>

theorem connect_reestablishes:
  assumes "driver_accepts env c"
  shows "\<exists>c' w'. connect env (c, w) = (Inr True, (c', w')) \<and>
           connection c' = Some (next_handle w) \<and>
           calls w' = calls w @ [Connected (next_handle w)] \<and>
           next_handle w' = Suc (next_handle w)"
  using assms
  by (auto simp: driver_accepts_def connect_def odbc_connect_def pg_connect_def establish_def
      split: dialect.splits sum.splits)

theorem connect_reestablishes_witness:
  "\<exists>c' w'. connect update_env (held_connector, held_world) = (Inr True, (c', w')) \<and>
     connection c' = Some 1 \<and> connection c' \<noteq> connection held_connector \<and>
     calls w' = [Connected 0, Connected 1]"
proof -
  have a: "driver_accepts update_env held_connector"
    by (simp add: driver_accepts_def update_env_def scenario_def held_connector_def)
  from connect_reestablishes [OF a, of held_world] show ?thesis
    by (auto simp: held_world_def held_connector_def)
qed

text \<open>
  A second \<open>connect()\<close> on a connector that holds connection 0 asks the driver again and
  leaves the connector with connection 1.
\<close>

theorem connect_again_counterexample:
  "fst (connect update_env (held_connector, held_world)) = Inr True \<and>
   connection held_connector = Some 0 \<and>
   connection (fst (snd (connect update_env (held_connector, held_world)))) = Some 1 \<and>
   calls held_world = [Connected 0] \<and>
   calls (snd (snd (connect update_env (held_connector, held_world))))
     = [Connected 0, Connected 1]"
  by (simp add: connect_def odbc_connect_def establish_def update_env_def scenario_def
      held_connector_def held_world_def)

section \<open>Disconnecting\<close>

lemmas service_defs =
  execute_query_with_cache_def get_ddl_with_cache_def redis_cache_def
  execute_query_plain_def get_ddl_plain_def success_dict_def error_dict_def with_connector_def try_except_def and_then_def
  ret_def raise_def lift_def get_db_connector_def new_connector_def py_lower_def lower_char_def
  connect_def odbc_connect_def establish_def disconnect_def
  execute_query_def odbc_execute_query_def ensure_connected_def run_query_def

text \<open>
  Claim C3. The services disconnect after a successful operation only. When
  \<open>execute_query\<close> raises, the \<open>except\<close> branch returns the error dictionary and the
  connection stays open: here the ODBC driver grants connection 0, the statement is
  rejected, and the call ends with handle 0 open and no \<open>Closed\<close> call in the log.
\<close>

theorem query_error_leaves_connection_open:
  "execute_query_with_cache failing_env ''DSN=fabric'' ''fabric'' ''SELECT * FROM missing''
       False 3600 quiet_world
     = (Inr (PDict [(''status'', Atom (DStr ''error'')),
                    (''error'', Atom (DStr ''Invalid object name'')),
                    (''query'', Atom (DStr ''SELECT * FROM missing'')),
                    (''db_type'', Atom (DStr ''fabric'')),
                    (''cached'', Atom (DBool False))]),
        quiet_world\<lparr>next_handle := 1, open_handles := [0],
                     calls := [Connected 0, Ran 0 ''SELECT * FROM missing'']\<rparr>)"
  by (simp add: service_defs failing_env_def scenario_def quiet_world_def)

text \<open>The same on \<open>get_ddl_with_cache\<close>, and the successful call for comparison.\<close>

lemma ddl_error_leaves_connection_open:
  "snd (get_ddl_with_cache failing_env ''DSN=fabric'' ''fabric'' ''orders'' ''table''
       False 3600 quiet_world)
     = quiet_world\<lparr>next_handle := 1, open_handles := [0],
                     calls := [Connected 0, Ran 0 (odbc_columns_query ''orders'')]\<rparr>"
  by (simp add: service_defs failing_env_def scenario_def quiet_world_def get_ddl_def numeral_eq_Suc
      odbc_table_ddl_def)

lemma success_closes_connection:
  "snd (execute_query_with_cache update_env ''DSN=fabric'' ''fabric'' ''UPDATE orders SET total = 0''
       False 3600 quiet_world)
     = quiet_world\<lparr>next_handle := 1, open_handles := [],
                     calls := [Connected 0, Ran 0 ''UPDATE orders SET total = 0'', Closed 0]\<rparr>"
  by (simp add: service_defs update_env_def scenario_def quiet_world_def)

section \<open>The cache\<close>

subsection \<open>The services leave the store alone\<close>

lemma same_cache_refl [simp]: "same_cache w w"
  by (simp add: same_cache_def)

lemma same_cache_trans: "same_cache w w' \<Longrightarrow> same_cache w' w'' \<Longrightarrow> same_cache w w''"
  by (simp add: same_cache_def)

lemma connect_same_cache: "connect env (c, w) = (r, (c', w')) \<Longrightarrow> same_cache w w'"
  by (auto simp: connect_def odbc_connect_def pg_connect_def establish_def connect_failed_def
      same_cache_def split: dialect.splits option.splits sum.splits)

lemma disconnect_same_cache: "disconnect (c, w) = (r, (c', w')) \<Longrightarrow> same_cache w w'"
  by (auto simp: disconnect_def same_cache_def split: option.splits)

lemma ensure_connected_same_cache:
  "ensure_connected env (c, w) = (r, (c', w')) \<Longrightarrow> same_cache w w'"
  by (auto simp: ensure_connected_def split: option.splits prod.splits sum.splits
      dest: connect_same_cache)

lemma run_query_same_cache: "run_query env q h (c, w) = (r, (c', w')) \<Longrightarrow> same_cache w w'"
  by (auto simp: run_query_def same_cache_def)

lemma and_then_same_cache:
  assumes "and_then m f (c, w) = (r, (c', w'))"
    and "\<And>c w r c' w'. m (c, w) = (r, (c', w')) \<Longrightarrow> same_cache w w'"
    and "\<And>x c w r c' w'. f x (c, w) = (r, (c', w')) \<Longrightarrow> same_cache w w'"
  shows "same_cache w w'"
proof -
  obtain r1 c1 w1 where m: "m (c, w) = (r1, (c1, w1))"
    by (cases "m (c, w)") auto
  from assms(2) [OF m] have a: "same_cache w w1" .
  show ?thesis
  proof (cases r1)
    case (Inl e)
    with m assms(1) have "w' = w1" by (simp add: and_then_def)
    with a show ?thesis by simp
  next
    case (Inr x)
    with m assms(1) have "f x (c1, w1) = (r, (c', w'))" by (simp add: and_then_def)
    from a assms(3) [OF this] show ?thesis by (rule same_cache_trans)
  qed
qed

lemma ret_same_cache: "ret x (c, w) = (r, (c', w')) \<Longrightarrow> same_cache w w'"
  by (simp add: ret_def)

lemma execute_query_same_cache:
  "execute_query env q (c, w) = (r, (c', w')) \<Longrightarrow> same_cache w w'"
  unfolding execute_query_def odbc_execute_query_def pg_execute_query_def
  by (cases "dialect c"; simp)
     (erule and_then_same_cache, erule ensure_connected_same_cache,
      erule and_then_same_cache, erule run_query_same_cache, erule ret_same_cache)+

lemma with_connector_same_cache:
  assumes "with_connector cs db body w = (r, w')"
    and "\<And>c w r c' w'. body (c, w) = (r, (c', w')) \<Longrightarrow> same_cache w w'"
  shows "same_cache w w'"
proof (cases "get_db_connector cs db")
  case (Inl e)
  with assms(1) show ?thesis by (simp add: with_connector_def)
next
  case (Inr c0)
  obtain r1 c1 w1 where b: "body (c0, w) = (r1, (c1, w1))"
    by (cases "body (c0, w)") auto
  with Inr assms(1) have "w' = w1" by (simp add: with_connector_def)
  with assms(2) [OF b] show ?thesis by simp
qed

lemma query_body_same_cache:
  "and_then (connect env) (\<lambda>ok. and_then (execute_query env q)
      (\<lambda>result. and_then disconnect (\<lambda>u. ret result))) (c, w) = (r, (c', w'))
   \<Longrightarrow> same_cache w w'"
  by (erule and_then_same_cache, erule connect_same_cache,
      erule and_then_same_cache, erule execute_query_same_cache,
      erule and_then_same_cache, erule disconnect_same_cache, erule ret_same_cache)

lemma execute_query_plain_cases:
  obtains (success) result w' where
      "execute_query_plain env cs db q w = (Inr (PDict (success_dict result q db)), w')"
      "same_cache w w'"
  | (error) e w' where
      "execute_query_plain env cs db q w = (Inr (PDict (error_dict e q db)), w')"
      "same_cache w w'"
proof -
  let ?body = "and_then (connect env) (\<lambda>ok. and_then (execute_query env q)
      (\<lambda>result. and_then disconnect (\<lambda>u. ret result)))"
  obtain r w1 where b: "with_connector cs db ?body w = (r, w1)"
    by (cases "with_connector cs db ?body w") auto
  have f: "same_cache w w1"
    using b by (rule with_connector_same_cache) (rule query_body_same_cache)
  show thesis
  proof (cases r)
    case (Inl e)
    with b have "execute_query_plain env cs db q w = (Inr (PDict (error_dict e q db)), w1)"
      by (simp add: execute_query_plain_def try_except_def and_then_def ret_def error_dict_def)
    then show ?thesis using f by (rule error)
  next
    case (Inr result)
    with b have "execute_query_plain env cs db q w
                   = (Inr (PDict (success_dict result q db)), w1)"
      by (simp add: execute_query_plain_def try_except_def and_then_def ret_def
          success_dict_def)
    then show ?thesis using f by (rule success)
  qed
qed

lemma loads_atom: "json_loads (json_atom a) = Atom (str_atom a)"
  by (cases a) simp_all

lemma loads_dumps: "json_loads (json_dumps v) = as_json v"
  by (induction v rule: json_dumps.induct) (auto simp: loads_atom)


lemma map_values_update:
  "map (\<lambda>(k, v). (k, f v)) (AList.update key x d)
     = AList.update key (f x) (map (\<lambda>(k, v). (k, f v)) d)"
  by (induction d) auto

lemma live_entry_written:
  assumes "0 \<le> el" "el < ttl"
  shows "live_entry (w\<lparr>store := AList.update key (text, clock w + ttl) (store w),
                        clock := clock w + el\<rparr>) key = Some text"
  using assms by (simp add: live_entry_def update_conv')

lemma redis_cache_miss:
  assumes "cached_lookup (cache_key env name args) w = None"
    and "func w = (Inr (PDict d), w')" and "d \<noteq> []"
    and "\<not> setex_fails w'" and "0 < ttl"
  shows "redis_cache env name args func True ttl w
           = (Inr (PDict d),
              w'\<lparr>store := AList.update (cache_key env name args)
                   (Json (json_dumps (PDict (AList.update ''cached'' (Atom (DBool False)) d))),
                    clock w' + ttl) (store w')\<rparr>)"
  using assms by (simp add: redis_cache_def cache_write_def redis_setex_def)

lemma redis_cache_hit:
  assumes "\<not> get_fails w" and "live_entry w (cache_key env name args) = Some (Json j)"
    and "json_loads j = PDict d"
  shows "redis_cache env name args func True ttl w
           = (Inr (PDict (AList.update ''cached'' (Atom (DBool True)) d)), w)"
  using assms by (simp add: redis_cache_def cached_lookup_def redis_get_def)

lemma redis_cache_twice:
  assumes miss: "cached_lookup (cache_key env name args) w = None"
    and f: "func w = (Inr (PDict d), w')" and d: "d \<noteq> []"
    and fr: "same_cache w w'"
    and ok: "\<not> get_fails w" "\<not> setex_fails w" "0 < ttl"
    and el: "0 \<le> el" "el < ttl"
    and first: "redis_cache env name args func True ttl w = (r1, w1)"
  shows "r1 = Inr (PDict d)"
    and "redis_cache env name args func2 True ttl2 (w1\<lparr>clock := clock w1 + el\<rparr>)
           = (Inr (PDict (AList.update ''cached'' (Atom (DBool True))
                            (map (\<lambda>(k, v). (k, as_json v)) d))),
              w1\<lparr>clock := clock w1 + el\<rparr>)"
    and "calls w1 = calls w'"
proof -
  from fr ok have ok': "\<not> get_fails w'" "\<not> setex_fails w'"
    by (simp_all add: same_cache_def)
  let ?key = "cache_key env name args"
  let ?j = "json_dumps (PDict (AList.update ''cached'' (Atom (DBool False)) d))"
  have m: "redis_cache env name args func True ttl w
             = (Inr (PDict d), w'\<lparr>store := AList.update ?key (Json ?j, clock w' + ttl) (store w')\<rparr>)"
    using miss f d ok'(2) ok(3) by (rule redis_cache_miss)
  with first have r1: "r1 = Inr (PDict d)"
    and w1: "w1 = w'\<lparr>store := AList.update ?key (Json ?j, clock w' + ttl) (store w')\<rparr>"
    by simp_all
  show "r1 = Inr (PDict d)" by (rule r1)
  show "calls w1 = calls w'" by (simp add: w1)
  have g: "\<not> get_fails (w1\<lparr>clock := clock w1 + el\<rparr>)"
    using ok' by (simp add: w1)
  have l: "live_entry (w1\<lparr>clock := clock w1 + el\<rparr>) ?key = Some (Json ?j)"
    using live_entry_written [OF el, of w' ?key "Json ?j"] by (simp add: w1)
  have j: "json_loads ?j
             = PDict (AList.update ''cached'' (Atom (DBool False))
                        (map (\<lambda>(k, v). (k, as_json v)) d))"
    by (simp only: loads_dumps as_json.simps map_values_update str_atom.simps)
  show "redis_cache env name args func2 True ttl2 (w1\<lparr>clock := clock w1 + el\<rparr>)
           = (Inr (PDict (AList.update ''cached'' (Atom (DBool True))
                            (map (\<lambda>(k, v). (k, as_json v)) d))),
              w1\<lparr>clock := clock w1 + el\<rparr>)"
    using redis_cache_hit [OF g l j] by simp
qed




lemma empty_store_miss: "store w = [] \<Longrightarrow> cached_lookup key w = None"
  by (simp add: cached_lookup_def redis_get_def live_entry_def)

lemma success_dict_nonempty [simp]: "success_dict r q db \<noteq> []"
  by (simp add: success_dict_def)

lemma error_dict_nonempty [simp]: "error_dict e q db \<noteq> []"
  by (simp add: error_dict_def)







subsection \<open>A store that fails\<close>

lemma read_failure_miss: "get_fails w \<Longrightarrow> cached_lookup key w = None"
  by (simp add: cached_lookup_def redis_get_def)

lemma write_failure_dropped: "setex_fails w \<Longrightarrow> cache_write key ttl result w = w"
  by (simp add: cache_write_def redis_setex_def split: option.splits)

lemma plain_query_flag:
  "\<exists>d. fst (execute_query_plain env cs db q w) = Inr (PDict d) \<and>
       map_of d ''cached'' = Some (Atom (DBool False))"
  by (cases rule: execute_query_plain_cases [of env cs db q w])
     (auto simp: success_dict_def error_dict_def)

lemma plain_ddl_flag:
  "\<exists>d. fst (get_ddl_plain env cs db n t w) = Inr (PDict d) \<and>
       map_of d ''cached'' = Some (Atom (DBool False))"
proof -
  let ?body = "with_connector cs db
             (and_then (connect env) (\<lambda>ok.
              and_then (get_ddl (frames env) env (DStr n) t) (\<lambda>ddl.
              and_then disconnect (\<lambda>u. ret ddl))))"
  obtain r w1 where b: "?body w = (r, w1)"
    by (cases "?body w") auto
  then show ?thesis
    by (cases r) (simp_all add: get_ddl_plain_def try_except_def and_then_def ret_def)
qed

text \<open>
  Claim C9. With the cache enabled, a read that fails is a miss: the operation is called and
  its result returned, after a best-effort write. A write that fails is dropped: the call
  is then exactly the operation's. Both wrapped operations never raise and return a
  dictionary with \<open>cached = False\<close>.
\<close>

theorem store_failure_is_swallowed:
  "(get_fails w \<longrightarrow>
      redis_cache env name args func True ttl w
        = (case func w of
             (Inl e, w') \<Rightarrow> (Inl e, w')
           | (Inr result, w') \<Rightarrow>
               (Inr result, cache_write (cache_key env name args) ttl result w')) \<and>
      fst (redis_cache env name args func True ttl w) = fst (func w)) \<and>
   (cached_lookup (cache_key env name args) w = None \<longrightarrow> setex_fails (snd (func w)) \<longrightarrow>
      redis_cache env name args func True ttl w = func w) \<and>
   (\<exists>d. fst (execute_query_plain env cs db q w) = Inr (PDict d) \<and>
        map_of d ''cached'' = Some (Atom (DBool False))) \<and>
   (\<exists>d. fst (get_ddl_plain env cs db n t w) = Inr (PDict d) \<and>
        map_of d ''cached'' = Some (Atom (DBool False)))"
proof -
  have a: "get_fails w \<longrightarrow>
      redis_cache env name args func True ttl w
        = (case func w of
             (Inl e, w') \<Rightarrow> (Inl e, w')
           | (Inr result, w') \<Rightarrow>
               (Inr result, cache_write (cache_key env name args) ttl result w')) \<and>
      fst (redis_cache env name args func True ttl w) = fst (func w)"
    by (auto simp: redis_cache_def read_failure_miss split: prod.splits sum.splits)
  have b: "cached_lookup (cache_key env name args) w = None \<longrightarrow> setex_fails (snd (func w)) \<longrightarrow>
      redis_cache env name args func True ttl w = func w"
    by (auto simp: redis_cache_def write_failure_dropped split: prod.splits sum.splits)
  from a b plain_query_flag plain_ddl_flag show ?thesis
    by blast
qed

theorem store_failure_is_swallowed_witness:
  "execute_query_with_cache update_env ''DSN=fabric'' ''fabric'' ''UPDATE orders SET total = 0''
       True 3600 down_world
     = execute_query_plain update_env ''DSN=fabric'' ''fabric'' ''UPDATE orders SET total = 0''
         down_world
   \<and> fst (execute_query_plain update_env ''DSN=fabric'' ''fabric'' ''UPDATE orders SET total = 0''
         down_world)
     = Inr (PDict [(''status'', Atom (DStr ''success'')),
                   (''result'', PDict [(''columns'', PList []), (''data'', PList []),
                                       (''row_count'', Atom (DInt 3)),
                                       (''affected_rows'', Atom (DInt 3))]),
                   (''query'', Atom (DStr ''UPDATE orders SET total = 0'')),
                   (''db_type'', Atom (DStr ''fabric'')),
                   (''cached'', Atom (DBool False))])"
proof -
  let ?f = "execute_query_plain update_env ''DSN=fabric'' ''fabric''
              ''UPDATE orders SET total = 0''"
  have v: "?f down_world
     = (Inr (PDict [(''status'', Atom (DStr ''success'')),
                   (''result'', PDict [(''columns'', PList []), (''data'', PList []),
                                       (''row_count'', Atom (DInt 3)),
                                       (''affected_rows'', Atom (DInt 3))]),
                   (''query'', Atom (DStr ''UPDATE orders SET total = 0'')),
                   (''db_type'', Atom (DStr ''fabric'')),
                   (''cached'', Atom (DBool False))]),
        down_world\<lparr>next_handle := 1,
                    calls := [Connected 0, Ran 0 ''UPDATE orders SET total = 0'', Closed 0]\<rparr>)"
    by (simp add: service_defs update_env_def scenario_def down_world_def result_dict_def odbc_result_def
        has_result_set_def column_names_def)
  have g: "get_fails down_world" and s: "setex_fails (snd (?f down_world))"
    by (simp_all add: v) (simp_all add: down_world_def)
  have m: "cached_lookup (cache_key update_env ''execute_query_with_cache''
              [''DSN=fabric'', ''fabric'', ''UPDATE orders SET total = 0'']) down_world = None"
    using g by (rule read_failure_miss)
  from store_failure_is_swallowed [where w = down_world and env = update_env
      and name = "''execute_query_with_cache''"
      and args = "[''DSN=fabric'', ''fabric'', ''UPDATE orders SET total = 0'']"
      and func = ?f and ttl = 3600] m s
  have "execute_query_with_cache update_env ''DSN=fabric'' ''fabric''
          ''UPDATE orders SET total = 0'' True 3600 down_world = ?f down_world"
    by (simp only: execute_query_with_cache_def)
  with v show ?thesis by simp
qed

subsection \<open>Errors are cached\<close>

lemma error_dict_native: "map (\<lambda>(k, v). (k, as_json v)) (error_dict e q db) = error_dict e q db"
  by (simp add: error_dict_def)

lemma error_dict_flag:
  "AList.update ''cached'' (Atom (DBool False)) (error_dict e q db) = error_dict e q db"
  by (simp add: error_dict_def)

text \<open>
  Claim C10. With the cache enabled, a working empty store and a positive time to live, an
  error dictionary returned by the service function is written to the store under the
  key of the call, and a second call with the same arguments before it expires returns
  that dictionary with \<open>cached = True\<close> and leaves the world as it is: the operation is
  not attempted again.
\<close>

theorem error_result_is_cached:
  assumes "\<not> get_fails w" and "\<not> setex_fails w" and "store w = []"
    and "0 < ttl" and "0 \<le> elapsed" and "elapsed < ttl"
    and "execute_query_plain env cs db q w = (Inr (PDict d), w')"
    and "map_of d ''status'' = Some (Atom (DStr ''error''))"
  shows "\<exists>w1. execute_query_with_cache env cs db q True ttl w = (Inr (PDict d), w1) \<and>
           store w1 = [(cache_key env ''execute_query_with_cache'' [cs, db, q],
                        (Json (json_dumps (PDict d)), clock w + ttl))] \<and>
           calls w1 = calls w' \<and>
           execute_query_with_cache env cs db q True ttl (w1\<lparr>clock := clock w1 + elapsed\<rparr>)
             = (Inr (PDict (AList.update ''cached'' (Atom (DBool True)) d)),
                w1\<lparr>clock := clock w1 + elapsed\<rparr>)"
proof -
  let ?key = "cache_key env ''execute_query_with_cache'' [cs, db, q]"
  let ?f = "execute_query_plain env cs db q"
  obtain e where d: "d = error_dict e q db" and fr: "same_cache w w'"
    using assms(7,8)
    by (cases rule: execute_query_plain_cases [of env cs db q w])
       (auto simp: success_dict_def)
  have miss: "cached_lookup ?key w = None"
    using assms(3) by (rule empty_store_miss)
  have ne: "d \<noteq> []" by (simp add: d)
  from fr assms(2) have s: "\<not> setex_fails w'" by (simp add: same_cache_def)
  have first: "redis_cache env ''execute_query_with_cache'' [cs, db, q] ?f True ttl w
      = (Inr (PDict d), w'\<lparr>store := AList.update ?key
           (Json (json_dumps (PDict (AList.update ''cached'' (Atom (DBool False)) d))),
            clock w' + ttl) (store w')\<rparr>)"
    using miss assms(7) ne s assms(4) by (rule redis_cache_miss)
  let ?w1 = "w'\<lparr>store := AList.update ?key
           (Json (json_dumps (PDict (AList.update ''cached'' (Atom (DBool False)) d))),
            clock w' + ttl) (store w')\<rparr>"
  note T = redis_cache_twice [OF miss assms(7) ne fr assms(1,2,4,5,6) first]
  have st: "store ?w1 = [(?key, (Json (json_dumps (PDict d)), clock w + ttl))]"
    using fr assms(3) by (simp add: same_cache_def d error_dict_flag)
  show ?thesis
    using first st T(2) [of ?f ttl]
    by (simp add: execute_query_with_cache_def d error_dict_native)
qed

theorem error_result_is_cached_witness:
  "\<exists>w1. execute_query_with_cache failing_env ''DSN=fabric'' ''fabric'' ''SELECT * FROM missing''
            True 3600 quiet_world
          = (Inr (PDict (error_dict (DatabaseError ''Invalid object name'')
                           ''SELECT * FROM missing'' ''fabric'')), w1) \<and>
        execute_query_with_cache failing_env ''DSN=fabric'' ''fabric'' ''SELECT * FROM missing''
            True 3600 (w1\<lparr>clock := clock w1 + 10\<rparr>)
          = (Inr (PDict (AList.update ''cached'' (Atom (DBool True))
                           (error_dict (DatabaseError ''Invalid object name'')
                              ''SELECT * FROM missing'' ''fabric''))),
             w1\<lparr>clock := clock w1 + 10\<rparr>)"
proof -
  have a: "\<not> get_fails quiet_world" "\<not> setex_fails quiet_world" "store quiet_world = []"
    by (simp_all add: quiet_world_def)
  have t: "(0::int) < 3600" "(0::int) \<le> 10" "(10::int) < 3600"
    by simp_all
  have p: "execute_query_plain failing_env ''DSN=fabric'' ''fabric'' ''SELECT * FROM missing''
             quiet_world
           = (Inr (PDict (error_dict (DatabaseError ''Invalid object name'')
                           ''SELECT * FROM missing'' ''fabric'')),
              quiet_world\<lparr>next_handle := 1, open_handles := [0],
                     calls := [Connected 0, Ran 0 ''SELECT * FROM missing'']\<rparr>)"
    by (simp add: service_defs failing_env_def scenario_def quiet_world_def error_dict_def)
  have s: "map_of (error_dict (DatabaseError ''Invalid object name'')
                           ''SELECT * FROM missing'' ''fabric'') ''status''
             = Some (Atom (DStr ''error''))"
    by (simp add: error_dict_def)
  from error_result_is_cached [OF a t p s] show ?thesis
    by blast
qed

section \<open>The DDL of a table on the ODBC connector\<close>

lemma str_int_small: "str_int 10 = ''10''" "str_int 2 = ''2''"
  by (simp_all add: str_int_def digits.simps)

lemma odbc_query_held:
  assumes "connection c = Some h"
  shows "odbc_execute_query env q (c, w)
           = (case cursor_execute env q of
                Raises msg \<Rightarrow> Inl (DatabaseError msg)
              | Returns cur \<Rightarrow> Inr (odbc_result cur),
              (c, w\<lparr>calls := calls w @ [Ran h q]\<rparr>))"
  using assms
  by (simp add: odbc_execute_query_def and_then_def ensure_connected_def
      run_query_def ret_def split: outcome.splits)

lemma odbc_query_answers:
  assumes "connection c = Some h" and "answers env q cols rows" and "cols \<noteq> []"
  shows "odbc_execute_query env q (c, w)
           = (Inr \<lparr>columns = cols, data = map (\<lambda>row. py_dict (zip cols row)) rows,
                   row_count = int (length rows), affected_rows = 0\<rparr>,
              (c, w\<lparr>calls := calls w @ [Ran h q]\<rparr>))"
  using assms
  by (auto simp: odbc_query_held answers_def odbc_result_def has_result_set_def
      column_names_def Let_def split: outcome.splits)

lemma max_modifier:
  assumes "getitem col ''column_name'' = Inr name"
    and "getitem col ''data_type'' = Inr (DStr ty)"
    and "ty \<in> set [''varchar'', ''nvarchar'', ''char'', ''nchar'']"
    and "getitem col ''max_length'' = Inr (DInt (- 1))"
    and "getitem col ''is_nullable'' = Inr nullable"
    and "getitem col ''is_identity'' = Inr ident"
  shows "odbc_column col
           = Inr (''    '' @ py_str name @ '' '' @ ty @ ''(MAX)''
                  @ (if truthy nullable then '' NULL'' else '' NOT NULL'')
                  @ (if truthy ident then '' IDENTITY(1,1)'' else []))"
  using assms by (auto simp: odbc_column_def thn_def)

lemma id_column:
  "odbc_column (py_dict (zip column_fields
       [DStr ''id'', DStr ty, ml, p, s, DBool False, DBool True, DInt 1]))
   = Inr (''    id '' @ ty
          @ (if ty \<in> set [''varchar'', ''nvarchar'', ''char'', ''nchar'']
             then ''('' @ (if eq_minus_one ml then ''MAX'' else py_str ml) @ '')''
             else if ty \<in> set [''decimal'', ''numeric'']
             then ''('' @ py_str p @ '', '' @ py_str s @ '')'' else [])
          @ '' NOT NULL IDENTITY(1,1)'')"
  by (simp add: odbc_column_def thn_def getitem_def py_dict_def column_fields_def)

lemma total_column:
  "odbc_column (py_dict (zip column_fields
       [DStr ''total'', DStr ''numeric'', ml, DInt 10, DInt 2, DBool True, DBool False, DInt 2]))
   = Inr (''    total numeric(10, 2) NULL'')"
  by (simp add: odbc_column_def thn_def getitem_def py_dict_def column_fields_def str_int_small)

lemma fk_statements_append:
  "odbc_fk_statements fks ddl = Inr r \<Longrightarrow> \<exists>rest. r = ddl @ rest"
proof (induction fks arbitrary: ddl)
  case Nil
  then show ?case by simp
next
  case (Cons a fks)
  obtain fk_name fk where a: "a = (fk_name, fk)" by (cases a)
  from Cons.prems obtain ddl' x where "odbc_fk_statements fks ddl' = Inr r" and "ddl' = ddl @ x"
    unfolding a by (auto simp: thn_def split: sum.splits)
  with Cons.IH [of ddl'] show ?case by auto
qed

lemma foreign_keys_append:
  "odbc_foreign_keys rows ddl = Inr r \<Longrightarrow> \<exists>rest. r = ddl @ rest"
  by (auto simp: odbc_foreign_keys_def thn_def fk_statements_append split: if_splits sum.splits)

lemma primary_key_none: "odbc_primary_key name [] ddl = Inr ddl"
  by (simp add: odbc_primary_key_def)

lemma primary_key_one:
  "odbc_primary_key name [py_dict (zip [''index_name'', ''column_name''] [DStr pk, DStr col])] ddl
     = Inr (ddl @ ''\<newline>\<newline>ALTER TABLE '' @ name @ '' ADD CONSTRAINT '' @ pk
            @ '' PRIMARY KEY ('' @ col @ '');'')"
  by (simp add: odbc_primary_key_def thn_def getitem_def py_dict_def py_join_def)

lemma table_branch:
  "name \<noteq> ''*'' \<Longrightarrow>
   odbc_get_ddl (Suc depth) env (DStr name) ''table''
     = and_then (odbc_table_ddl env name) (\<lambda>ddl. ret (DStr ddl))"
  by (simp add: py_lower_def lower_char_def)

lemma table_ddl_answers:
  assumes "connection c = Some h"
    and "answers env (odbc_columns_query name) cf crows" and "cf \<noteq> []"
    and "answers env (odbc_pk_query name) pf prows" and "pf \<noteq> []"
    and "answers env (odbc_fk_query name) ff frows" and "ff \<noteq> []"
  shows "fst (odbc_table_ddl env name (c, w))
           = thn (odbc_columns (length crows) 0 (map (\<lambda>row. py_dict (zip cf row)) crows)
                    (''CREATE TABLE '' @ name @ '' (\<newline>'')) (\<lambda>ddl.
             thn (odbc_primary_key name (map (\<lambda>row. py_dict (zip pf row)) prows)
                    (ddl @ ''\<newline>);'')) (\<lambda>ddl.
               odbc_foreign_keys (map (\<lambda>row. py_dict (zip ff row)) frows) ddl))"
  unfolding odbc_table_ddl_def and_then_def lift_def thn_def
  by (simp add: odbc_query_answers [OF assms(1) assms(2) assms(3)]
      odbc_query_answers [OF assms(1) assms(4) assms(5)]
      odbc_query_answers [OF assms(1) assms(6) assms(7)] split: sum.splits)

lemma table_branch_value:
  assumes "name \<noteq> ''*''"
  shows "fst (odbc_get_ddl (Suc depth) env (DStr name) ''table'' s)
           = thn (fst (odbc_table_ddl env name s)) (\<lambda>ddl. Inr (DStr ddl))"
  unfolding table_branch [OF assms] and_then_def ret_def thn_def
  by (simp split: prod.splits sum.splits)


text \<open>
  Claim C7. On a connector that holds a connection, let the catalog describe \<open>orders\<close>
  by the identity column \<open>id\<close>, not nullable, of some type \<open>ty\<close>, and the nullable
  column \<open>total\<close> of type \<open>numeric\<close> with precision 10 and scale 2, in this order; let it
  list no primary key or one on \<open>id\<close>, named \<open>pk\<close>. Then, when the table has no foreign
  keys, \<open>get_ddl('orders', 'table')\<close> returns the \<open>CREATE TABLE orders (\<close> block with the
  line of \<open>id\<close> ending in \<open>NOT NULL IDENTITY(1,1)\<close>, then the line
  \<open>total numeric(10, 2) NULL\<close>, followed, if there is the key, by
  \<open>ALTER TABLE orders ADD CONSTRAINT pk PRIMARY KEY (id);\<close>. Whatever foreign keys the
  catalog lists, a text the call returns starts with this. A column of a character type
  with \<open>max_length = -1\<close> is rendered with \<open>(MAX)\<close>.
\<close>

theorem odbc_orders_ddl:
  assumes "connection c = Some h"
    and "answers env (odbc_columns_query ''orders'') column_fields
           [[DStr ''id'', DStr ty, ml, p, s, DBool False, DBool True, DInt 1],
            [DStr ''total'', DStr ''numeric'', ml', DInt 10, DInt 2, DBool True, DBool False,
             DInt 2]]"
    and "answers env (odbc_pk_query ''orders'') [''index_name'', ''column_name''] pk_rows"
    and "pk_rows = [] \<or> pk_rows = [[DStr pk, DStr ''id'']]"
    and "answers env (odbc_fk_query ''orders'') fk_fields fk_rows"
  shows "(fk_rows = [] \<longrightarrow>
            fst (odbc_get_ddl (Suc depth) env (DStr ''orders'') ''table'' (c, w))
              = Inr (DStr (''CREATE TABLE orders (\<newline>''
                     @ ''    id '' @ ty
                     @ (if ty \<in> set [''varchar'', ''nvarchar'', ''char'', ''nchar'']
                        then ''('' @ (if eq_minus_one ml then ''MAX'' else py_str ml) @ '')''
                        else if ty \<in> set [''decimal'', ''numeric'']
                        then ''('' @ py_str p @ '', '' @ py_str s @ '')'' else [])
                     @ '' NOT NULL IDENTITY(1,1),\<newline>''
                     @ ''    total numeric(10, 2) NULL\<newline>''
                     @ '');''
                     @ (if pk_rows = [] then []
                        else ''\<newline>\<newline>ALTER TABLE orders ADD CONSTRAINT '' @ pk
                             @ '' PRIMARY KEY (id);'')))) \<and>
         (\<forall>ddl. fst (odbc_get_ddl (Suc depth) env (DStr ''orders'') ''table'' (c, w)) = Inr ddl \<longrightarrow>
            (\<exists>rest. ddl = DStr (''CREATE TABLE orders (\<newline>''
                     @ ''    id '' @ ty
                     @ (if ty \<in> set [''varchar'', ''nvarchar'', ''char'', ''nchar'']
                        then ''('' @ (if eq_minus_one ml then ''MAX'' else py_str ml) @ '')''
                        else if ty \<in> set [''decimal'', ''numeric'']
                        then ''('' @ py_str p @ '', '' @ py_str s @ '')'' else [])
                     @ '' NOT NULL IDENTITY(1,1),\<newline>''
                     @ ''    total numeric(10, 2) NULL\<newline>''
                     @ '');''
                     @ (if pk_rows = [] then []
                        else ''\<newline>\<newline>ALTER TABLE orders ADD CONSTRAINT '' @ pk
                             @ '' PRIMARY KEY (id);'')
                     @ rest))) \<and>
         (\<forall>col name cty nullable ident.
            getitem col ''column_name'' = Inr name \<longrightarrow>
            getitem col ''data_type'' = Inr (DStr cty) \<longrightarrow>
            cty \<in> set [''varchar'', ''nvarchar'', ''char'', ''nchar''] \<longrightarrow>
            getitem col ''max_length'' = Inr (DInt (- 1)) \<longrightarrow>
            getitem col ''is_nullable'' = Inr nullable \<longrightarrow>
            getitem col ''is_identity'' = Inr ident \<longrightarrow>
            odbc_column col
              = Inr (''    '' @ py_str name @ '' '' @ cty @ ''(MAX)''
                     @ (if truthy nullable then '' NULL'' else '' NOT NULL'')
                     @ (if truthy ident then '' IDENTITY(1,1)'' else [])))"
proof -
  define idl where "idl = ''    id '' @ ty
        @ (if ty \<in> set [''varchar'', ''nvarchar'', ''char'', ''nchar'']
           then ''('' @ (if eq_minus_one ml then ''MAX'' else py_str ml) @ '')''
           else if ty \<in> set [''decimal'', ''numeric'']
           then ''('' @ py_str p @ '', '' @ py_str s @ '')'' else [])
        @ '' NOT NULL IDENTITY(1,1)''"
  define body where "body = ''CREATE TABLE orders (\<newline>'' @ idl @ '',\<newline>''
        @ ''    total numeric(10, 2) NULL''"
  define pkl where "pkl = (if pk_rows = [] then []
             else ''\<newline>\<newline>ALTER TABLE orders ADD CONSTRAINT '' @ pk @ '' PRIMARY KEY (id);'')"
  define crows where "crows =
           [[DStr ''id'', DStr ty, ml, p, s, DBool False, DBool True, DInt 1],
            [DStr ''total'', DStr ''numeric'', ml', DInt 10, DInt 2, DBool True, DBool False,
             DInt 2]]"
  define fks where "fks = map (\<lambda>row. py_dict (zip fk_fields row)) fk_rows"
  have cols: "odbc_columns (length crows) 0 (map (\<lambda>row. py_dict (zip column_fields row)) crows)
        (''CREATE TABLE '' @ ''orders'' @ '' (\<newline>'') = Inr body"
    unfolding body_def idl_def crows_def
    by (simp add: id_column total_column thn_def del: set_simps)
  have pk: "odbc_primary_key ''orders''
        (map (\<lambda>row. py_dict (zip [''index_name'', ''column_name''] row)) pk_rows)
        (body @ ''\<newline>);'')
      = Inr (body @ ''\<newline>);'' @ pkl)"
    using assms(4) primary_key_one [of "''orders''" pk "''id''" "body @ ''\<newline>);''"]
    by (auto simp: primary_key_none pkl_def)
  have c0: "column_fields \<noteq> []" and f0: "fk_fields \<noteq> []"
    and p0: "[''index_name'', ''column_name''] \<noteq> []"
    by (simp_all add: column_fields_def fk_fields_def)
  have a2: "answers env (odbc_columns_query ''orders'') column_fields crows"
    using assms(2) by (simp only: crows_def)
  have run: "fst (odbc_table_ddl env ''orders'' (c, w))
      = odbc_foreign_keys fks (body @ ''\<newline>);'' @ pkl)"
    by (simp only: table_ddl_answers [OF assms(1) a2 c0 assms(3) p0 assms(5) f0] cols pk
        thn_def sum.case fks_def)
  have ne: "''orders'' \<noteq> ''*''"
    by simp
  have get: "fst (odbc_get_ddl (Suc depth) env (DStr ''orders'') ''table'' (c, w))
      = thn (odbc_foreign_keys fks (body @ ''\<newline>);'' @ pkl)) (\<lambda>ddl. Inr (DStr ddl))"
    by (simp only: table_branch_value [OF ne] run)
  have none: "fk_rows = [] \<longrightarrow>
      fst (odbc_get_ddl (Suc depth) env (DStr ''orders'') ''table'' (c, w))
        = Inr (DStr (body @ ''\<newline>);'' @ pkl))"
    unfolding get by (simp add: thn_def odbc_foreign_keys_def fks_def)
  have some: "\<forall>ddl. fst (odbc_get_ddl (Suc depth) env (DStr ''orders'') ''table'' (c, w)) = Inr ddl
      \<longrightarrow> (\<exists>rest. ddl = DStr ((body @ ''\<newline>);'' @ pkl) @ rest))"
    unfolding get
    by (auto simp: thn_def split: sum.splits dest!: foreign_keys_append)
  have unf: "body @ ''\<newline>);'' @ pkl = ''CREATE TABLE orders (\<newline>''
                     @ ''    id '' @ ty
                     @ (if ty \<in> set [''varchar'', ''nvarchar'', ''char'', ''nchar'']
                        then ''('' @ (if eq_minus_one ml then ''MAX'' else py_str ml) @ '')''
                        else if ty \<in> set [''decimal'', ''numeric'']
                        then ''('' @ py_str p @ '', '' @ py_str s @ '')'' else [])
                     @ '' NOT NULL IDENTITY(1,1),\<newline>''
                     @ ''    total numeric(10, 2) NULL\<newline>''
                     @ '');''
                     @ (if pk_rows = [] then []
                        else ''\<newline>\<newline>ALTER TABLE orders ADD CONSTRAINT '' @ pk
                             @ '' PRIMARY KEY (id);'')"
    unfolding body_def idl_def pkl_def by (simp del: set_simps)
  have unf2: "(body @ ''\<newline>);'' @ pkl) @ rest = ''CREATE TABLE orders (\<newline>''
                     @ ''    id '' @ ty
                     @ (if ty \<in> set [''varchar'', ''nvarchar'', ''char'', ''nchar'']
                        then ''('' @ (if eq_minus_one ml then ''MAX'' else py_str ml) @ '')''
                        else if ty \<in> set [''decimal'', ''numeric'']
                        then ''('' @ py_str p @ '', '' @ py_str s @ '')'' else [])
                     @ '' NOT NULL IDENTITY(1,1),\<newline>''
                     @ ''    total numeric(10, 2) NULL\<newline>''
                     @ '');''
                     @ (if pk_rows = [] then []
                        else ''\<newline>\<newline>ALTER TABLE orders ADD CONSTRAINT '' @ pk
                             @ '' PRIMARY KEY (id);'')
                     @ rest" for rest
    unfolding body_def idl_def pkl_def by (simp del: set_simps)
  from none have none': "fk_rows = [] \<longrightarrow>
      fst (odbc_get_ddl (Suc depth) env (DStr ''orders'') ''table'' (c, w))
        = Inr (DStr (''CREATE TABLE orders (\<newline>''
                     @ ''    id '' @ ty
                     @ (if ty \<in> set [''varchar'', ''nvarchar'', ''char'', ''nchar'']
                        then ''('' @ (if eq_minus_one ml then ''MAX'' else py_str ml) @ '')''
                        else if ty \<in> set [''decimal'', ''numeric'']
                        then ''('' @ py_str p @ '', '' @ py_str s @ '')'' else [])
                     @ '' NOT NULL IDENTITY(1,1),\<newline>''
                     @ ''    total numeric(10, 2) NULL\<newline>''
                     @ '');''
                     @ (if pk_rows = [] then []
                        else ''\<newline>\<newline>ALTER TABLE orders ADD CONSTRAINT '' @ pk
                             @ '' PRIMARY KEY (id);'')))"
    by (simp only: unf)
  from some none' max_modifier show ?thesis
    by (simp only: unf2) blast
qed

lemma shop_orders:
  "answers shop_env (odbc_columns_query ''orders'') column_fields
     [[DStr ''id'', DStr ''int'', DInt 4, DInt 10, DInt 0, DBool False, DBool True, DInt 1],
      [DStr ''total'', DStr ''numeric'', DInt 9, DInt 10, DInt 2, DBool True, DBool False,
       DInt 2]]"
  "answers shop_env (odbc_pk_query ''orders'') [''index_name'', ''column_name'']
     [[DStr ''PK_orders'', DStr ''id'']]"
  "answers shop_env (odbc_fk_query ''orders'') fk_fields []"
  by (simp_all add: answers_def shop_env_def scenario_def shop_db_def result_set_def
      odbc_tables_query_def odbc_columns_query_def odbc_pk_query_def odbc_fk_query_def
      block_def quoted_def)

theorem odbc_orders_ddl_witness:
  "fst (odbc_get_ddl (Suc 0) shop_env (DStr ''orders'') ''table'' (held_connector, held_world))
     = Inr (DStr (''CREATE TABLE orders (\<newline>''
                  @ ''    id int NOT NULL IDENTITY(1,1),\<newline>''
                  @ ''    total numeric(10, 2) NULL\<newline>''
                  @ '');''
                  @ ''\<newline>\<newline>ALTER TABLE orders ADD CONSTRAINT PK_orders PRIMARY KEY (id);''))"
proof -
  have h: "connection held_connector = Some 0"
    by (simp add: held_connector_def)
  have k: "[[DStr ''PK_orders'', DStr ''id'']] = [] \<or>
           [[DStr ''PK_orders'', DStr ''id'']] = [[DStr ''PK_orders'', DStr ''id'']]"
    by simp
  from odbc_orders_ddl [OF h shop_orders(1) shop_orders(2) k shop_orders(3),
      of 0 held_world]
  show ?thesis
    by simp
qed

section \<open>The DDL of all tables on the ODBC connector\<close>


declare odbc_get_ddl.simps [simp del]



























section \<open>The DDL of a table on the PostgreSQL connector\<close>

lemma pg_query_held:
  assumes "connection c = Some h"
  shows "pg_execute_query env q (c, w)
           = (case cursor_execute env q of
                Raises msg \<Rightarrow> Inl (DatabaseError msg)
              | Returns cur \<Rightarrow> Inr (pg_result cur),
              (c, w\<lparr>calls := calls w @ [Ran h q]\<rparr>))"
  using assms
  by (simp add: pg_execute_query_def and_then_def ensure_connected_def
      run_query_def ret_def split: outcome.splits)

lemma pg_query_answers:
  assumes "connection c = Some h" and "answers env q cols rows" and "cols \<noteq> []"
  shows "pg_execute_query env q (c, w)
           = (Inr \<lparr>columns = cols, data = map (\<lambda>row. py_dict (zip cols row)) rows,
                   row_count = int (length rows), affected_rows = 0\<rparr>,
              (c, w\<lparr>calls := calls w @ [Ran h q]\<rparr>))"
  using assms
  by (auto simp: pg_query_held answers_def pg_result_def has_result_set_def
      column_names_def Let_def split: outcome.splits)

lemma pg_query_raises:
  assumes "connection c = Some h" and "cursor_execute env q = Raises msg"
  shows "pg_execute_query env q (c, w)
           = (Inl (DatabaseError msg), (c, w\<lparr>calls := calls w @ [Ran h q]\<rparr>))"
  using assms by (simp add: pg_query_held)

lemma try_except_total:
  assumes "\<And>e s. \<exists>v s'. h e s = (Inr v, s')"
  shows "\<exists>v s'. try_except m h s = (Inr v, s')"
proof -
  obtain r s1 where m: "m s = (r, s1)"
    by (cases "m s") auto
  show ?thesis
  proof (cases r)
    case (Inl e)
    with m assms [of e s1] show ?thesis
      by (simp add: try_except_def)
  next
    case (Inr v)
    with m show ?thesis
      by (simp add: try_except_def)
  qed
qed

lemma fallback_total: "\<exists>v s'. pg_table_fallback env n e s = (Inr v, s')"
  unfolding pg_table_fallback_def by (rule try_except_total) (simp add: ret_def)

lemma table_ddl_total: "\<exists>v s'. pg_table_ddl env n s = (Inr v, s')"
  unfolding pg_table_ddl_def by (rule try_except_total) (rule fallback_total)

lemma create_total: "\<exists>v s'. create_tabledef_function env s = (Inr v, s')"
  unfolding create_tabledef_function_def by (rule try_except_total) (simp add: ret_def)

lemma create_held:
  assumes "connection c = Some h"
  shows "create_tabledef_function env (c, w)
           = (Inr (), (c, w\<lparr>calls := calls w @ [Ran h create_function_query]\<rparr>))"
  by (simp add: create_tabledef_function_def try_except_def and_then_def ret_def
      pg_query_held [OF assms] split: outcome.splits)

lemma pg_table_branch:
  "name \<noteq> ''*'' \<Longrightarrow>
   pg_get_ddl (Suc depth) env (DStr name) ''table''
     = and_then (create_tabledef_function env) (\<lambda>u. pg_table_ddl env (DStr name))"
  by (simp add: py_lower_def lower_char_def)

declare pg_get_ddl.simps [simp del]

lemma pg_table_total:
  assumes "name \<noteq> ''*''"
  shows "\<exists>v s'. pg_get_ddl (Suc depth) env (DStr name) ''table'' s = (Inr v, s')"
proof -
  from create_total [of env s] obtain s1 where "create_tabledef_function env s = (Inr (), s1)"
    by auto
  with table_ddl_total [of env "DStr name" s1] show ?thesis
    by (auto simp: pg_table_branch [OF assms] and_then_def)
qed

lemma exists_answer:
  "exists_hit \<lparr>columns = cs, data = map (\<lambda>row. py_dict (zip [''exists''] row)) [[DBool a]],
               row_count = n, affected_rows = k\<rparr> = a"
  by (simp add: exists_hit_def py_dict_def)

lemma pg_resolve_chain:
  assumes "connection c = Some h"
    and "answers env (pg_exists_query 20 name) [''exists''] [[DBool a]]"
    and "answers env (pg_exists_query 24 (py_lower name)) [''exists''] [[DBool b]]"
    and "answers env (pg_exists_query 28 (''public.'' @ name)) [''exists''] [[DBool p]]"
    and "answers env (pg_exists_query 32 (''public.'' @ py_lower name)) [''exists''] [[DBool q]]"
  shows "\<exists>w'. pg_resolve env (DStr name) (c, w)
           = (Inr (DStr (if a then name else if b then py_lower name
                         else if p then ''public.'' @ name
                         else if q then ''public.'' @ py_lower name else name)), (c, w'))"
proof -
  have e: "[''exists''] \<noteq> []"
    by simp
  note q = pg_query_answers [OF assms(1) assms(2) e, simplified]
    pg_query_answers [OF assms(1) assms(3) e, simplified]
    pg_query_answers [OF assms(1) assms(4) e, simplified]
    pg_query_answers [OF assms(1) assms(5) e, simplified]
  show ?thesis
    unfolding pg_resolve_def and_then_def lift_def ret_def
    by (simp add: q exists_hit_def py_dict_def)
qed

lemma fetch_found:
  assumes "connection c = Some h"
    and "answers env (pg_tabledef_query 20 r) [''ddl''] [[ddl]]"
  shows "\<exists>w'. pg_fetch_tabledef env (DStr r) (c, w) = (Inr ddl, (c, w'))"
proof -
  have d: "[''ddl''] \<noteq> []"
    by simp
  show ?thesis
    unfolding pg_fetch_tabledef_def and_then_def lift_def ret_def
    by (simp add: pg_query_answers [OF assms d, simplified] first_value_def getitem_def py_dict_def)
qed

lemma fetch_raises:
  assumes "connection c = Some h"
    and "cursor_execute env (pg_tabledef_query 20 r) = Raises msg"
  shows "\<exists>w'. pg_fetch_tabledef env (DStr r) (c, w) = (Inl (DatabaseError msg), (c, w'))"
  unfolding pg_fetch_tabledef_def and_then_def
  by (simp add: pg_query_raises [OF assms])

lemma resolve_raises:
  assumes "connection c = Some h"
    and "cursor_execute env (pg_exists_query 20 name) = Raises msg"
  shows "\<exists>w'. pg_resolve env (DStr name) (c, w) = (Inl (DatabaseError msg), (c, w'))"
  unfolding pg_resolve_def and_then_def
  by (simp add: pg_query_raises [OF assms])

lemma fallback_none:
  assumes "connection c = Some h"
    and "answers env (pg_lookup_query (py_lower n)) [''full_name''] []"
  shows "fst (pg_table_fallback env (DStr n) e (c, w))
           = Inr (DStr (''-- Table '' @ quoted n @ '' not found. Error: '' @ exn_str e))"
proof -
  have d: "[''full_name''] \<noteq> []"
    by simp
  show ?thesis
    unfolding pg_table_fallback_def pg_case_lookup_def try_except_def and_then_def lift_def ret_def
    by (simp add: pg_query_answers [OF assms d, simplified])
qed

lemma fallback_found:
  assumes "connection c = Some h"
    and "answers env (pg_lookup_query (py_lower n)) [''full_name''] [[DStr full]]"
    and "answers env (pg_tabledef_query 28 full) [''ddl''] [[ddl]]"
  shows "fst (pg_table_fallback env (DStr n) e (c, w)) = Inr ddl"
proof -
  have d: "[''full_name''] \<noteq> []" "[''ddl''] \<noteq> []"
    by simp_all
  show ?thesis
    unfolding pg_table_fallback_def pg_case_lookup_def try_except_def and_then_def lift_def ret_def
    by (simp add: pg_query_answers [OF assms(1) assms(2) d(1), simplified]
        pg_query_answers [OF assms(1) assms(3) d(2), simplified]
        first_value_def getitem_def py_dict_def)
qed

lemma fallback_raises:
  assumes "connection c = Some h"
    and "cursor_execute env (pg_lookup_query (py_lower n)) = Raises msg2"
  shows "fst (pg_table_fallback env (DStr n) e (c, w))
           = Inr (DStr (''-- Error getting table definition: '' @ msg2))"
  unfolding pg_table_fallback_def pg_case_lookup_def try_except_def and_then_def lift_def ret_def
  by (simp add: pg_query_raises [OF assms])

lemma table_found:
  assumes "name \<noteq> ''*''" and "connection c = Some h"
    and "\<And>w. \<exists>w'. pg_resolve env (DStr name) (c, w) = (Inr (DStr r), (c, w'))"
    and "answers env (pg_tabledef_query 20 r) [''ddl''] [[ddl]]"
  shows "fst (pg_get_ddl (Suc depth) env (DStr name) ''table'' (c, w)) = Inr ddl"
proof -
  let ?w1 = "w\<lparr>calls := calls w @ [Ran h create_function_query]\<rparr>"
  from assms(3) [of ?w1] obtain w2 where r: "pg_resolve env (DStr name) (c, ?w1) = (Inr (DStr r), (c, w2))"
    by blast
  from fetch_found [OF assms(2) assms(4), of w2] obtain w3
    where f: "pg_fetch_tabledef env (DStr r) (c, w2) = (Inr ddl, (c, w3))"
    by blast
  show ?thesis
    by (simp add: pg_table_branch [OF assms(1)] and_then_def create_held [OF assms(2)]
        pg_table_ddl_def try_except_def r f)
qed

lemma table_fetch_failed:
  assumes "name \<noteq> ''*''" and "connection c = Some h"
    and "\<And>w. \<exists>w'. pg_resolve env (DStr name) (c, w) = (Inr (DStr r), (c, w'))"
    and "cursor_execute env (pg_tabledef_query 20 r) = Raises msg"
  shows "\<exists>w'. fst (pg_get_ddl (Suc depth) env (DStr name) ''table'' (c, w))
           = fst (pg_table_fallback env (DStr r) (DatabaseError msg) (c, w'))"
proof -
  let ?w1 = "w\<lparr>calls := calls w @ [Ran h create_function_query]\<rparr>"
  from assms(3) [of ?w1] obtain w2 where r: "pg_resolve env (DStr name) (c, ?w1) = (Inr (DStr r), (c, w2))"
    by blast
  from fetch_raises [OF assms(2) assms(4), of w2] obtain w3
    where f: "pg_fetch_tabledef env (DStr r) (c, w2) = (Inl (DatabaseError msg), (c, w3))"
    by blast
  from fallback_total [of env "DStr r" "DatabaseError msg" "(c, w3)"] obtain v s'
    where t: "pg_table_fallback env (DStr r) (DatabaseError msg) (c, w3) = (Inr v, s')"
    by blast
  have "fst (pg_get_ddl (Suc depth) env (DStr name) ''table'' (c, w))
           = fst (pg_table_fallback env (DStr r) (DatabaseError msg) (c, w3))"
    by (simp add: pg_table_branch [OF assms(1)] and_then_def create_held [OF assms(2)]
        pg_table_ddl_def try_except_def r f t)
  then show ?thesis
    by blast
qed

lemma table_resolve_failed:
  assumes "name \<noteq> ''*''" and "connection c = Some h"
    and "cursor_execute env (pg_exists_query 20 name) = Raises msg"
  shows "\<exists>w'. fst (pg_get_ddl (Suc depth) env (DStr name) ''table'' (c, w))
           = fst (pg_table_fallback env (DStr name) (DatabaseError msg) (c, w'))"
proof -
  let ?w1 = "w\<lparr>calls := calls w @ [Ran h create_function_query]\<rparr>"
  from resolve_raises [OF assms(2) assms(3), of ?w1] obtain w2
    where r: "pg_resolve env (DStr name) (c, ?w1) = (Inl (DatabaseError msg), (c, w2))"
    by blast
  have "fst (pg_get_ddl (Suc depth) env (DStr name) ''table'' (c, w))
           = fst (pg_table_fallback env (DStr name) (DatabaseError msg) (c, w2))"
    by (simp add: pg_table_branch [OF assms(1)] and_then_def create_held [OF assms(2)]
        pg_table_ddl_def try_except_def r)
  then show ?thesis
    by blast
qed

text \<open>
  Claim C6. For a table name other than \<open>'*'\<close>, \<open>get_ddl(name, 'table')\<close> returns and does
  not raise, whatever the connector holds and the database does. On a connector that
  holds a connection: when the database answers the four questions whether it knows the
  name as given (\<open>a\<close>), lowercased (\<open>b\<close>), under \<open>public.\<close> (\<open>p\<close>) and lowercased under
  \<open>public.\<close> (\<open>q\<close>), the DDL statement is asked with the first of these names it knows, in
  this order, and with the name as given when it knows none; the \<open>ddl\<close> that statement
  answers with is the result. When the first question or the DDL statement raises, with
  \<open>n\<close> the name as it stood then, \<open>pg_tables\<close> is searched for \<open>n\<close> regardless of case: a
  table found is asked for its DDL, which is the result; when none is found the result is
  the comment \<open>-- Table 'n' not found. Error: ...\<close> with the message of the error; and when
  the search itself raises the result is the comment
  \<open>-- Error getting table definition: ...\<close> with the message of that error.
\<close>

theorem pg_table_fallback_chain:
  assumes "name \<noteq> ''*''" and "connection c = Some h"
    and "resolved = (if a then name else if b then py_lower name
                     else if p then ''public.'' @ name
                     else if q then ''public.'' @ py_lower name else name)"
    and "result = fst (pg_get_ddl (Suc depth) env (DStr name) ''table'' (c, w))"
  shows "(\<forall>s. \<exists>v s'. pg_get_ddl (Suc depth) env (DStr name) ''table'' s = (Inr v, s')) \<and>
         (answers env (pg_exists_query 20 name) [''exists''] [[DBool a]] \<longrightarrow>
          answers env (pg_exists_query 24 (py_lower name)) [''exists''] [[DBool b]] \<longrightarrow>
          answers env (pg_exists_query 28 (''public.'' @ name)) [''exists''] [[DBool p]] \<longrightarrow>
          answers env (pg_exists_query 32 (''public.'' @ py_lower name)) [''exists''] [[DBool q]] \<longrightarrow>
            fst (pg_resolve env (DStr name) (c, w)) = Inr (DStr resolved) \<and>
            (\<forall>ddl. answers env (pg_tabledef_query 20 resolved) [''ddl''] [[ddl]] \<longrightarrow>
               result = Inr ddl)) \<and>
         (\<forall>n msg.
            (cursor_execute env (pg_exists_query 20 name) = Raises msg \<and> n = name \<or>
             answers env (pg_exists_query 20 name) [''exists''] [[DBool a]] \<and>
             answers env (pg_exists_query 24 (py_lower name)) [''exists''] [[DBool b]] \<and>
             answers env (pg_exists_query 28 (''public.'' @ name)) [''exists''] [[DBool p]] \<and>
             answers env (pg_exists_query 32 (''public.'' @ py_lower name)) [''exists''] [[DBool q]] \<and>
             cursor_execute env (pg_tabledef_query 20 resolved) = Raises msg \<and> n = resolved) \<longrightarrow>
            (\<forall>full ddl.
               answers env (pg_lookup_query (py_lower n)) [''full_name''] [[DStr full]] \<longrightarrow>
               answers env (pg_tabledef_query 28 full) [''ddl''] [[ddl]] \<longrightarrow>
                 result = Inr ddl) \<and>
            (answers env (pg_lookup_query (py_lower n)) [''full_name''] [] \<longrightarrow>
               result = Inr (DStr (''-- Table '' @ quoted n @ '' not found. Error: '' @ msg))) \<and>
            (\<forall>msg2. cursor_execute env (pg_lookup_query (py_lower n)) = Raises msg2 \<longrightarrow>
               result = Inr (DStr (''-- Error getting table definition: '' @ msg2))))"
proof -
  have total: "\<forall>s. \<exists>v s'. pg_get_ddl (Suc depth) env (DStr name) ''table'' s = (Inr v, s')"
    using pg_table_total [OF assms(1)] by blast
  have chain: "fst (pg_resolve env (DStr name) (c, w)) = Inr (DStr resolved) \<and>
            (\<forall>ddl. answers env (pg_tabledef_query 20 resolved) [''ddl''] [[ddl]] \<longrightarrow>
               result = Inr ddl)"
    if k: "answers env (pg_exists_query 20 name) [''exists''] [[DBool a]]"
      "answers env (pg_exists_query 24 (py_lower name)) [''exists''] [[DBool b]]"
      "answers env (pg_exists_query 28 (''public.'' @ name)) [''exists''] [[DBool p]]"
      "answers env (pg_exists_query 32 (''public.'' @ py_lower name)) [''exists''] [[DBool q]]"
  proof -
    have r: "\<exists>w'. pg_resolve env (DStr name) (c, w) = (Inr (DStr resolved), (c, w'))" for w
      unfolding assms(3) by (rule pg_resolve_chain [OF assms(2) k])
    from r [of w] have "fst (pg_resolve env (DStr name) (c, w)) = Inr (DStr resolved)"
      by auto
    moreover have "result = Inr ddl"
      if "answers env (pg_tabledef_query 20 resolved) [''ddl''] [[ddl]]" for ddl
      unfolding assms(4) using assms(1,2) r that by (rule table_found)
    ultimately show ?thesis
      by blast
  qed
  have handler: "\<exists>w'. result = fst (pg_table_fallback env (DStr n) (DatabaseError msg) (c, w'))"
    if f: "cursor_execute env (pg_exists_query 20 name) = Raises msg \<and> n = name \<or>
             answers env (pg_exists_query 20 name) [''exists''] [[DBool a]] \<and>
             answers env (pg_exists_query 24 (py_lower name)) [''exists''] [[DBool b]] \<and>
             answers env (pg_exists_query 28 (''public.'' @ name)) [''exists''] [[DBool p]] \<and>
             answers env (pg_exists_query 32 (''public.'' @ py_lower name)) [''exists''] [[DBool q]] \<and>
             cursor_execute env (pg_tabledef_query 20 resolved) = Raises msg \<and> n = resolved"
    for n msg
    using f
  proof
    assume "cursor_execute env (pg_exists_query 20 name) = Raises msg \<and> n = name"
    then show ?thesis
      unfolding assms(4) using table_resolve_failed [OF assms(1,2), of env msg depth w] by auto
  next
    assume k: "answers env (pg_exists_query 20 name) [''exists''] [[DBool a]] \<and>
             answers env (pg_exists_query 24 (py_lower name)) [''exists''] [[DBool b]] \<and>
             answers env (pg_exists_query 28 (''public.'' @ name)) [''exists''] [[DBool p]] \<and>
             answers env (pg_exists_query 32 (''public.'' @ py_lower name)) [''exists''] [[DBool q]] \<and>
             cursor_execute env (pg_tabledef_query 20 resolved) = Raises msg \<and> n = resolved"
    then have r: "\<exists>w'. pg_resolve env (DStr name) (c, w) = (Inr (DStr resolved), (c, w'))" for w
      unfolding assms(3) using pg_resolve_chain [OF assms(2)] by blast
    from k have "cursor_execute env (pg_tabledef_query 20 resolved) = Raises msg" and "n = resolved"
      by simp_all
    with table_fetch_failed [OF assms(1,2) r, of msg depth w] show ?thesis
      unfolding assms(4) by auto
  qed
  have outcomes: "(\<forall>full ddl.
               answers env (pg_lookup_query (py_lower n)) [''full_name''] [[DStr full]] \<longrightarrow>
               answers env (pg_tabledef_query 28 full) [''ddl''] [[ddl]] \<longrightarrow>
                 result = Inr ddl) \<and>
            (answers env (pg_lookup_query (py_lower n)) [''full_name''] [] \<longrightarrow>
               result = Inr (DStr (''-- Table '' @ quoted n @ '' not found. Error: '' @ msg))) \<and>
            (\<forall>msg2. cursor_execute env (pg_lookup_query (py_lower n)) = Raises msg2 \<longrightarrow>
               result = Inr (DStr (''-- Error getting table definition: '' @ msg2)))"
    if "\<exists>w'. result = fst (pg_table_fallback env (DStr n) (DatabaseError msg) (c, w'))"
    for n msg
  proof -
    from that obtain w'
      where "result = fst (pg_table_fallback env (DStr n) (DatabaseError msg) (c, w'))"
      by blast
    then show ?thesis
      using fallback_found [OF assms(2), of env n _ _ "DatabaseError msg" w']
        fallback_none [OF assms(2), of env n "DatabaseError msg" w']
        fallback_raises [OF assms(2), of env n _ "DatabaseError msg" w']
      by simp
  qed
  from total chain handler outcomes show ?thesis
    by blast
qed

lemma lower_orders: "py_lower ''Orders'' = ''orders''"
  by (simp add: py_lower_def lower_char_def char_of_eq_iff)

lemma pg_held: "connection pg_held_connector = Some 0"
  by (simp add: pg_held_connector_def)

lemma pg_shop_answers:
  "answers pg_shop_env (pg_exists_query 20 ''Orders'') [''exists''] [[DBool False]]"
  "answers pg_shop_env (pg_exists_query 24 ''orders'') [''exists''] [[DBool True]]"
  "answers pg_shop_env (pg_exists_query 28 (''public.'' @ ''Orders'')) [''exists''] [[DBool False]]"
  "answers pg_shop_env (pg_exists_query 32 (''public.'' @ ''orders'')) [''exists''] [[DBool True]]"
  "answers pg_shop_env (pg_tabledef_query 20 ''orders'') [''ddl'']
     [[DStr ''CREATE TABLE public.orders (id integer NOT NULL);'']]"
  by (simp_all add: answers_def pg_shop_env_def scenario_def pg_shop_db_def result_set_def
      pg_exists_query_def pg_tabledef_query_def block_def quoted_def eval_nat_numeral)

theorem pg_table_fallback_chain_witness:
  "fst (pg_resolve pg_shop_env (DStr ''Orders'') (pg_held_connector, held_world))
     = Inr (DStr ''orders'') \<and>
   fst (pg_get_ddl (Suc 0) pg_shop_env (DStr ''Orders'') ''table'' (pg_held_connector, held_world))
     = Inr (DStr ''CREATE TABLE public.orders (id integer NOT NULL);'')"
proof -
  have ne: "''Orders'' \<noteq> ''*''"
    by simp
  have r: "''orders'' = (if False then ''Orders'' else if True then py_lower ''Orders''
                     else if False then ''public.'' @ ''Orders''
                     else if True then ''public.'' @ py_lower ''Orders'' else ''Orders'')"
    by (simp add: lower_orders)
  from pg_table_fallback_chain [OF ne pg_held r refl, of 0 pg_shop_env held_world]
    pg_shop_answers
  show ?thesis
    by (simp add: lower_orders)
qed

lemma failing_statements: "cursor_execute failing_env q = Raises ''Invalid object name''"
  by (simp add: failing_env_def scenario_def)

text \<open>
  The claim as stated fails where the search raises as well: with a database that rejects
  every statement the result is a comment, but not one that says \<open>not found\<close>.
\<close>

theorem pg_lookup_error_counterexample:
  "fst (pg_get_ddl (Suc 0) failing_env (DStr ''orders'') ''table'' (pg_held_connector, held_world))
     = Inr (DStr ''-- Error getting table definition: Invalid object name'') \<and>
   \<not> contains ''not found'' ''-- Error getting table definition: Invalid object name''"
proof -
  have ne: "''orders'' \<noteq> ''*''"
    by simp
  from table_resolve_failed [OF ne pg_held failing_statements, of 0 held_world]
  have "fst (pg_get_ddl (Suc 0) failing_env (DStr ''orders'') ''table''
               (pg_held_connector, held_world))
          = Inr (DStr (''-- Error getting table definition: '' @ ''Invalid object name''))"
    by (auto simp: fallback_raises [OF pg_held failing_statements])
  then show ?thesis
    by simp
qed

end
